theory Spec2Isabelle
  imports Main "HOL-Library.Sublist"
begin

text \<open>
  A model of the device manager of bolt, the Thunderbolt daemon: the device table and
  the udev callbacks of \<^verbatim>\<open>boltd/bolt-manager.c\<close> and the sysfs reader of
  \<^verbatim>\<open>boltd/bolt-sysfs.c\<close>. Pointers to device objects are addresses into an
  explicit heap, NULL is \<open>None\<close>, a \<^verbatim>\<open>GError\<close> is the left summand of a
  result, and every loop over the device array is a recursion over a list.
\<close>

section \<open>Device records and the manager's state\<close>

text \<open>
  Modelled from the spec: the status and policy enumerations are declared in headers that
  are not among the sources (bolt-enums.h). The spec lists the status values
  Disconnected, Connected, AuthError, AuthConnected, AuthConnectedSecure and the policy
  values Default, Manual, Auto.
\<close>

datatype BoltStatus =
    BOLT_STATUS_DISCONNECTED
  | BOLT_STATUS_CONNECTED
  | BOLT_STATUS_AUTH_ERROR
  | BOLT_STATUS_AUTH_CONNECTED
  | BOLT_STATUS_AUTH_CONNECTED_SECURE

datatype BoltPolicy = BOLT_POLICY_DEFAULT | BOLT_POLICY_MANUAL | BOLT_POLICY_AUTO

text \<open>
  Modelled from the spec: \<^verbatim>\<open>bolt_status_is_authorized\<close> is declared outside
  the sources; the spec says that the predicate "authorized" covers the last two status
  values.
\<close>

fun bolt_status_is_authorized :: "BoltStatus \<Rightarrow> bool" where
  "bolt_status_is_authorized BOLT_STATUS_AUTH_CONNECTED = True"
| "bolt_status_is_authorized BOLT_STATUS_AUTH_CONNECTED_SECURE = True"
| "bolt_status_is_authorized _ = False"

text \<open>
  Modelled from the spec: the fields of a \<^verbatim>\<open>BoltDevice\<close> (bolt-device.c is not
  among the sources) that the manager reads through its getters: the unique id, the
  sysfs path (NULL when not connected), status, policy, the store marker
  (\<^verbatim>\<open>bolt_device_get_store\<close>, a guint that is positive for a stored device) and the
  D-Bus object path (NULL while not exported).
\<close>

record BoltDevice =
  dev_uid :: string
  dev_syspath :: "string option"
  dev_status :: BoltStatus
  dev_policy :: BoltPolicy
  dev_store :: nat
  dev_opath :: "string option"

text \<open>
  A \<^verbatim>\<open>struct udev_device\<close> as the code reads it: the action of the event, the
  sysname, the syspath, and the sysfs attributes. Reading an attribute either yields its
  string or fails, leaving a value in errno (\<open>Inl errno\<close>). \<open>u_lstat\<close> is what
  \<^verbatim>\<open>lstat\<close> reports for the syspath (None when lstat fails, otherwise the
  seconds of the three time stamps); \<open>u_parent\<close> is the attribute table of the parent
  node, if there is a parent.
\<close>

record stat =
  st_ctim_sec :: int
  st_atim_sec :: int
  st_mtim_sec :: int

record udev_device =
  u_action :: "string option"
  u_sysname :: "string option"
  u_syspath :: "string option"
  u_sysattr :: "string \<Rightarrow> int + string"
  u_lstat :: "stat option"
  u_parent :: "(string \<Rightarrow> int + string) option"

definition udev_device_get_sysattr_value :: "udev_device \<Rightarrow> string \<Rightarrow> string option" where
  "udev_device_get_sysattr_value udev attr =
     (case u_sysattr udev attr of Inl e \<Rightarrow> None | Inr v \<Rightarrow> Some v)"

datatype gerror =
    BOLT_ERROR_UDEV
  | BOLT_ERROR_STORE
  | G_IO_ERROR int

datatype failure = Error gerror | Aborted

datatype dbus_signal = DeviceAdded "string option" | DeviceRemoved string

datatype warning =
    WarnNoSyspath
  | WarnLoadFailed string
  | WarnCreateFailed
  | WarnExportFailed string
  | WarnNoParent string

text \<open>
  The outcome of the four libudev calls of \<^verbatim>\<open>setup_monitor\<close> for one netlink
  source.
\<close>

record monitor_calls =
  mon_new :: bool
  mon_filter :: int
  mon_enable :: int
  mon_fd :: int

text \<open>
  What the manager consumes from code that is not among the sources. Modelled from the
  spec: \<open>status_from_udev\<close> is the status that bolt-device.c derives from a node
  (Connected when sysfs reports authorized = 0, an authorized variant otherwise);
  \<open>device_export\<close> is the object path that \<^verbatim>\<open>bolt_device_export\<close> assigns
  (None when exporting fails); \<open>store_list_uids\<close> and \<open>store_get_device\<close> are
  the store's list and get operations; the remaining fields are the answers of libudev
  during start-up (\<open>udev_enumerate\<close> holds, for each listed syspath, the device that
  \<^verbatim>\<open>udev_device_new_from_syspath\<close> returns, None for NULL).
\<close>

record environment =
  status_from_udev :: "udev_device \<Rightarrow> BoltStatus"
  device_export :: "BoltDevice \<Rightarrow> string option"
  store_list_uids :: "gerror + string list"
  store_get_device :: "string \<Rightarrow> gerror + BoltDevice"
  udev_new :: bool
  udev_monitor :: "string \<Rightarrow> monitor_calls"
  udev_enumerate :: "udev_device option list"

text \<open>
  The manager with the objects it points to. \<open>devices\<close> is the GPtrArray of device
  pointers, \<open>objs\<close> the heap of device objects (addresses are natural numbers,
  \<open>nalloc\<close> is the next fresh address), \<open>idle\<close> the authorization tasks queued with
  \<^verbatim>\<open>g_idle_add\<close> (the device each task holds), \<open>emitted\<close> the D-Bus
  signals sent so far, \<open>warnings\<close> the \<^verbatim>\<open>g_warning\<close> messages, and
  \<open>bus\<close> tells whether the manager's interface skeleton has a connection.
\<close>

record manager =
  devices :: "nat list"
  objs :: "nat \<Rightarrow> BoltDevice"
  nalloc :: nat
  idle :: "nat list"
  emitted :: "dbus_signal list"
  warnings :: "warning list"
  bus :: bool

section \<open>Topology index\<close>

fun device_by_syspath_loop :: "(nat \<Rightarrow> BoltDevice) \<Rightarrow> nat list \<Rightarrow> string \<Rightarrow> nat option" where
  "device_by_syspath_loop h [] sysfs = None"
| "device_by_syspath_loop h (dev # rest) sysfs =
     (if dev_syspath (h dev) = Some sysfs then Some dev
      else device_by_syspath_loop h rest sysfs)"

definition bolt_manager_get_device_by_syspath :: "manager \<Rightarrow> string \<Rightarrow> nat option" where
  "bolt_manager_get_device_by_syspath mgr sysfs =
     device_by_syspath_loop (objs mgr) (devices mgr) sysfs"

fun device_by_uid_loop :: "(nat \<Rightarrow> BoltDevice) \<Rightarrow> nat list \<Rightarrow> string \<Rightarrow> nat option" where
  "device_by_uid_loop h [] u = None"
| "device_by_uid_loop h (dev # rest) u =
     (if dev_uid (h dev) = u then Some dev else device_by_uid_loop h rest u)"

definition bolt_manager_get_device_by_uid :: "manager \<Rightarrow> string \<Rightarrow> nat option" where
  "bolt_manager_get_device_by_uid mgr u = device_by_uid_loop (objs mgr) (devices mgr) u"

text \<open>
  \<^verbatim>\<open>strrchr\<close>: the offset of the last occurrence of a character, None for NULL.
\<close>

fun strrchr :: "string \<Rightarrow> char \<Rightarrow> nat option" where
  "strrchr [] c = None"
| "strrchr (x # xs) c =
     (case strrchr xs c of
        Some i \<Rightarrow> Some (Suc i)
      | None \<Rightarrow> if x = c then Some 0 else None)"

text \<open>
  \<^verbatim>\<open>bolt_manager_get_parent\<close>. \<open>start\<close> is \<^verbatim>\<open>path + strlen ("/sys")\<close>,
  \<open>pos\<close> is kept as an offset from \<open>start\<close>, so that \<^verbatim>\<open>pos < start + 2\<close>
  reads \<open>pos < 2\<close>; \<^verbatim>\<open>*pos = '\0'\<close> cuts the whole path at that offset.
  A syspath of udev starts with the sysfs mount point; on a string shorter than four
  characters the C code would read behind the string, where the model finds no slash.
\<close>

definition bolt_manager_get_parent :: "manager \<Rightarrow> nat \<Rightarrow> nat option" where
  "bolt_manager_get_parent mgr dev =
     (case dev_syspath (objs mgr dev) of
        None \<Rightarrow> None
      | Some path \<Rightarrow>
          (let start = length ''/sys'' in
           case strrchr (drop start path) (CHR ''/'') of
             None \<Rightarrow> None
           | Some pos \<Rightarrow>
               if pos < 2 then None
               else bolt_manager_get_device_by_syspath mgr (take (start + pos) path)))"

fun get_children_loop :: "manager \<Rightarrow> nat \<Rightarrow> nat list \<Rightarrow> nat list \<Rightarrow> nat list" where
  "get_children_loop mgr target [] res = res"
| "get_children_loop mgr target (dev # rest) res =
     (if bolt_manager_get_parent mgr dev \<noteq> Some target
      then get_children_loop mgr target rest res
      else get_children_loop mgr target rest (res @ [dev]))"

definition bolt_manager_get_children :: "manager \<Rightarrow> nat \<Rightarrow> nat list" where
  "bolt_manager_get_children mgr target = get_children_loop mgr target (devices mgr) []"

section \<open>Device authorization\<close>

text \<open>
  \<^verbatim>\<open>maybe_authorize_device\<close>: \<^verbatim>\<open>g_return_if_fail (store > 0)\<close> returns
  when the device is not stored (GLib's checks are compiled in unless a build disables
  them); otherwise the task is queued with a new reference to the device.
\<close>

definition maybe_authorize_device :: "manager \<Rightarrow> nat \<Rightarrow> manager" where
  "maybe_authorize_device mgr dev =
     (let st = dev_status (objs mgr dev);
          pol = dev_policy (objs mgr dev)
      in if bolt_status_is_authorized st \<or> pol \<noteq> BOLT_POLICY_AUTO then mgr
         else if \<not> dev_store (objs mgr dev) > 0 then mgr
         else mgr\<lparr>idle := idle mgr @ [dev]\<rparr>)"

section \<open>Device operations the manager calls\<close>

text \<open>
  Modelled from the spec: bolt-device.c is not among the sources. The spec describes
  these operations of the device record: \<^verbatim>\<open>is_connected\<close> (the status is not
  Disconnected); \<^verbatim>\<open>new_for_udev\<close> constructs a fresh record from the node's
  unique id, unstored and with the default policy; \<^verbatim>\<open>connected\<close> and
  \<^verbatim>\<open>update_from_udev\<close> refresh syspath and status from the node and return the
  new status; \<^verbatim>\<open>disconnected\<close> moves to Disconnected (the syspath is present
  only while connected) and keeps uid, policy and the store marker;
  \<^verbatim>\<open>unexport\<close> clears the object path.
\<close>

definition bolt_device_is_connected :: "BoltDevice \<Rightarrow> bool" where
  "bolt_device_is_connected d = (dev_status d \<noteq> BOLT_STATUS_DISCONNECTED)"

definition bolt_device_new_for_udev :: "environment \<Rightarrow> udev_device \<Rightarrow> gerror + BoltDevice" where
  "bolt_device_new_for_udev E udev =
     (case udev_device_get_sysattr_value udev ''unique_id'' of
        None \<Rightarrow> Inl BOLT_ERROR_UDEV
      | Some u \<Rightarrow>
          Inr \<lparr>dev_uid = u, dev_syspath = u_syspath udev,
               dev_status = status_from_udev E udev, dev_policy = BOLT_POLICY_DEFAULT,
               dev_store = 0, dev_opath = None\<rparr>)"

definition bolt_device_connected :: "environment \<Rightarrow> BoltDevice \<Rightarrow> udev_device \<Rightarrow> BoltDevice" where
  "bolt_device_connected E d udev =
     d\<lparr>dev_syspath := u_syspath udev, dev_status := status_from_udev E udev\<rparr>"

definition bolt_device_update_from_udev :: "environment \<Rightarrow> BoltDevice \<Rightarrow> udev_device \<Rightarrow> BoltDevice" where
  "bolt_device_update_from_udev E d udev =
     d\<lparr>dev_syspath := u_syspath udev, dev_status := status_from_udev E udev\<rparr>"

definition bolt_device_disconnected :: "BoltDevice \<Rightarrow> BoltDevice" where
  "bolt_device_disconnected d =
     d\<lparr>dev_syspath := None, dev_status := BOLT_STATUS_DISCONNECTED\<rparr>"

definition bolt_device_unexport :: "BoltDevice \<Rightarrow> BoltDevice" where
  "bolt_device_unexport d = d\<lparr>dev_opath := None\<rparr>"

section \<open>udev callbacks\<close>

text \<open>
  \<^verbatim>\<open>g_ptr_array_add\<close> of a newly created object: it gets the next fresh address.
\<close>

definition add_new_device :: "manager \<Rightarrow> BoltDevice \<Rightarrow> manager" where
  "add_new_device mgr d =
     mgr\<lparr>objs := (objs mgr)(nalloc mgr := d), nalloc := Suc (nalloc mgr),
         devices := devices mgr @ [nalloc mgr]\<rparr>"

definition handle_udev_device_added :: "environment \<Rightarrow> manager \<Rightarrow> udev_device \<Rightarrow> manager" where
  "handle_udev_device_added E mgr udev =
     (case bolt_device_new_for_udev E udev of
        Inl err \<Rightarrow> mgr\<lparr>warnings := warnings mgr @ [WarnCreateFailed]\<rparr>
      | Inr d \<Rightarrow>
          (let dev = nalloc mgr;
               mgr1 = add_new_device mgr d
           in if \<not> bus mgr1 then mgr1
              else (case device_export E d of
                      None \<Rightarrow>
                        mgr1\<lparr>warnings := warnings mgr1 @ [WarnExportFailed (dev_uid d)],
                             emitted := emitted mgr1 @ [DeviceAdded None]\<rparr>
                    | Some opath \<Rightarrow>
                        mgr1\<lparr>objs := (objs mgr1)(dev := d\<lparr>dev_opath := Some opath\<rparr>),
                             emitted := emitted mgr1 @ [DeviceAdded (Some opath)]\<rparr>)))"

fun authorize_children_loop :: "manager \<Rightarrow> nat list \<Rightarrow> manager" where
  "authorize_children_loop mgr [] = mgr"
| "authorize_children_loop mgr (child # rest) =
     authorize_children_loop (maybe_authorize_device mgr child) rest"

definition handle_udev_device_changed :: "environment \<Rightarrow> manager \<Rightarrow> nat \<Rightarrow> udev_device \<Rightarrow> manager" where
  "handle_udev_device_changed E mgr dev udev =
     (let mgr1 = mgr\<lparr>objs := (objs mgr)(dev := bolt_device_update_from_udev E (objs mgr dev) udev)\<rparr>;
          after = dev_status (objs mgr1 dev)
      in if \<not> bolt_status_is_authorized after then mgr1
         else authorize_children_loop mgr1 (bolt_manager_get_children mgr1 dev))"

text \<open>
  \<^verbatim>\<open>g_ptr_array_remove_fast\<close>: the first occurrence of the pointer is replaced by
  the last element and the array shrinks by one; an array without the pointer is left
  as it is.
\<close>

fun ptr_array_index_of :: "nat list \<Rightarrow> nat \<Rightarrow> nat option" where
  "ptr_array_index_of [] data = None"
| "ptr_array_index_of (x # xs) data =
     (if x = data then Some 0 else map_option Suc (ptr_array_index_of xs data))"

definition g_ptr_array_remove_fast :: "nat list \<Rightarrow> nat \<Rightarrow> nat list" where
  "g_ptr_array_remove_fast arr data =
     (case ptr_array_index_of arr data of
        None \<Rightarrow> arr
      | Some i \<Rightarrow>
          if i \<noteq> length arr - 1 then butlast (arr[i := last arr]) else butlast arr)"

definition hanlde_udev_device_removed :: "manager \<Rightarrow> nat \<Rightarrow> manager" where
  "hanlde_udev_device_removed mgr dev =
     (let mgr1 = mgr\<lparr>devices := g_ptr_array_remove_fast (devices mgr) dev\<rparr>
      in case dev_opath (objs mgr1 dev) of
           None \<Rightarrow> mgr1
         | Some opath \<Rightarrow>
             mgr1\<lparr>emitted := emitted mgr1 @ [DeviceRemoved opath],
                  objs := (objs mgr1)(dev := bolt_device_unexport (objs mgr1 dev))\<rparr>)"

definition handle_udev_device_attached :: "environment \<Rightarrow> manager \<Rightarrow> nat \<Rightarrow> udev_device \<Rightarrow> manager" where
  "handle_udev_device_attached E mgr dev udev =
     (let mgr1 = mgr\<lparr>objs := (objs mgr)(dev := bolt_device_connected E (objs mgr dev) udev)\<rparr>;
          st = dev_status (objs mgr1 dev)
      in if st \<noteq> BOLT_STATUS_CONNECTED then mgr1
         else (case bolt_manager_get_parent mgr1 dev of
                 Some parent \<Rightarrow>
                   if \<not> bolt_status_is_authorized (dev_status (objs mgr1 parent)) then mgr1
                   else maybe_authorize_device mgr1 dev
               | None \<Rightarrow>
                   maybe_authorize_device
                     (mgr1\<lparr>warnings := warnings mgr1 @ [WarnNoParent (dev_uid (objs mgr1 dev))]\<rparr>)
                     dev))"

definition handle_udev_device_detached :: "manager \<Rightarrow> nat \<Rightarrow> manager" where
  "handle_udev_device_detached mgr dev =
     mgr\<lparr>objs := (objs mgr)(dev := bolt_device_disconnected (objs mgr dev))\<rparr>"

text \<open>
  \<^verbatim>\<open>handle_uevent_udev\<close>; the argument is what
  \<^verbatim>\<open>udev_monitor_receive_device\<close> returned (None for NULL).
\<close>

definition handle_uevent_udev :: "environment \<Rightarrow> manager \<Rightarrow> udev_device option \<Rightarrow> manager" where
  "handle_uevent_udev E mgr received =
     (case received of
        None \<Rightarrow> mgr
      | Some device \<Rightarrow>
          (case u_action device of
             None \<Rightarrow> mgr
           | Some action \<Rightarrow>
               if action = ''add'' \<or> action = ''change'' then
                 (case udev_device_get_sysattr_value device ''unique_id'' of
                    None \<Rightarrow> mgr
                  | Some u \<Rightarrow>
                      (case bolt_manager_get_device_by_uid mgr u of
                         None \<Rightarrow> handle_udev_device_added E mgr device
                       | Some dev \<Rightarrow>
                           if \<not> bolt_device_is_connected (objs mgr dev)
                           then handle_udev_device_attached E mgr dev device
                           else handle_udev_device_changed E mgr dev device))
               else if action = ''remove'' then
                 (case u_syspath device of
                    None \<Rightarrow> mgr\<lparr>warnings := warnings mgr @ [WarnNoSyspath]\<rparr>
                  | Some sp \<Rightarrow>
                      if (case u_sysname device of
                            None \<Rightarrow> False
                          | Some name \<Rightarrow> prefix ''domain'' name)
                      then mgr
                      else (case bolt_manager_get_device_by_syspath mgr sp of
                              None \<Rightarrow> mgr
                            | Some dev \<Rightarrow>
                                if dev_store (objs mgr dev) > 0
                                then handle_udev_device_detached mgr dev
                                else hanlde_udev_device_removed mgr dev))
               else mgr))"

section \<open>Start-up\<close>

definition setup_monitor :: "environment \<Rightarrow> string \<Rightarrow> gerror + unit" where
  "setup_monitor E name =
     (let m = udev_monitor E name
      in if \<not> mon_new m then Inl BOLT_ERROR_UDEV
         else if mon_filter m < 0 then Inl BOLT_ERROR_UDEV
         else if mon_enable m < 0 then Inl BOLT_ERROR_UDEV
         else if mon_fd m < 0 then Inl BOLT_ERROR_UDEV
         else Inr ())"

fun load_devices_loop :: "environment \<Rightarrow> string list \<Rightarrow> manager \<Rightarrow> manager" where
  "load_devices_loop E [] mgr = mgr"
| "load_devices_loop E (u # ids) mgr =
     (case store_get_device E u of
        Inl err \<Rightarrow>
          load_devices_loop E ids (mgr\<lparr>warnings := warnings mgr @ [WarnLoadFailed u]\<rparr>)
      | Inr d \<Rightarrow> load_devices_loop E ids (add_new_device mgr d))"

text \<open>
  The enumeration loop; \<^verbatim>\<open>g_assert (uid)\<close> aborts the process when a listed
  node has no unique id.
\<close>

fun enumerate_loop :: "environment \<Rightarrow> udev_device option list \<Rightarrow> manager \<Rightarrow> failure + manager" where
  "enumerate_loop E [] mgr = Inr mgr"
| "enumerate_loop E (None # l) mgr = enumerate_loop E l mgr"
| "enumerate_loop E (Some udevice # l) mgr =
     (case udev_device_get_sysattr_value udevice ''unique_id'' of
        None \<Rightarrow> Inl Aborted
      | Some u \<Rightarrow>
          (case bolt_manager_get_device_by_uid mgr u of
             Some dev \<Rightarrow> enumerate_loop E l (handle_udev_device_attached E mgr dev udevice)
           | None \<Rightarrow> enumerate_loop E l (handle_udev_device_added E mgr udevice)))"

definition bolt_manager_initialize :: "environment \<Rightarrow> manager \<Rightarrow> failure + manager" where
  "bolt_manager_initialize E mgr =
     (if \<not> udev_new E then Inl (Error BOLT_ERROR_UDEV)
      else case setup_monitor E ''kernel'' of
        Inl err \<Rightarrow> Inl (Error err)
      | Inr _ \<Rightarrow>
          (case setup_monitor E ''udev'' of
             Inl err \<Rightarrow> Inl (Error err)
           | Inr _ \<Rightarrow>
               (case store_list_uids E of
                  Inl err \<Rightarrow> Inl (Error err)
                | Inr ids \<Rightarrow>
                    enumerate_loop E (udev_enumerate E) (load_devices_loop E ids mgr))))"

section \<open>Sysfs reader\<close>

text \<open>
  \<^verbatim>\<open>bolt_str_parse_as_int\<close> lives in bolt-str.c, which is not among the sources;
  the reader takes it as the parameter \<open>parse\<close>. Applied to the string and the
  current errno it yields the parsed number (None when it returns FALSE) and the errno it
  leaves behind. The functions below pass errno along in the same way: each returns its
  value together with the errno after the call.
\<close>

type_synonym parse_as_int = "string \<Rightarrow> int \<Rightarrow> int option \<times> int"

definition sysfs_get_sysattr_value_as_int ::
    "parse_as_int \<Rightarrow> udev_device \<Rightarrow> string \<Rightarrow> int \<Rightarrow> int \<times> int" where
  "sysfs_get_sysattr_value_as_int parse udev attr errno =
     (case u_sysattr udev attr of
        Inl e \<Rightarrow> (- e, e)
      | Inr str \<Rightarrow>
          (case parse str errno of
             (None, errno') \<Rightarrow> (- errno', errno')
           | (Some val, errno') \<Rightarrow> (val, errno')))"

definition sysfs_get_sysattr_size :: "udev_device \<Rightarrow> string \<Rightarrow> int \<Rightarrow> int \<times> int" where
  "sysfs_get_sysattr_size udev attr errno =
     (case u_sysattr udev attr of
        Inl e \<Rightarrow> (- e, e)
      | Inr str \<Rightarrow> (int (length str), errno))"

datatype BoltStatTime = BOLT_ST_CTIME | BOLT_ST_ATIME | BOLT_ST_MTIME

definition bolt_sysfs_device_get_time :: "udev_device \<Rightarrow> BoltStatTime \<Rightarrow> int" where
  "bolt_sysfs_device_get_time udev st =
     (case u_syspath udev of
        None \<Rightarrow> 0
      | Some path \<Rightarrow>
          (case u_lstat udev of
             None \<Rightarrow> 0
           | Some sb \<Rightarrow>
               (let ms = (case st of
                            BOLT_ST_CTIME \<Rightarrow> st_ctim_sec sb
                          | BOLT_ST_ATIME \<Rightarrow> st_atim_sec sb
                          | BOLT_ST_MTIME \<Rightarrow> st_mtim_sec sb)
                in if ms < 0 then 0 else ms)))"

text \<open>
  Modelled from the spec: \<^verbatim>\<open>BoltLinkSpeed\<close> and \<^verbatim>\<open>BoltDevInfo\<close> are
  declared in headers that are not among the sources, and so are the attribute names
  behind \<^verbatim>\<open>BOLT_SYSFS_RX_LANES\<close>, \<^verbatim>\<open>BOLT_SYSFS_GENERATION\<close> and their
  like; the spec names the attributes rx_lanes, rx_speed, tx_lanes, tx_speed and
  generation.
\<close>

record BoltLinkSpeed =
  rx_lanes :: int
  rx_speed :: int
  tx_lanes :: int
  tx_speed :: int

record BoltDevInfo =
  info_authorized :: int
  info_keysize :: int
  info_boot :: int
  info_full :: bool
  info_ctim :: int
  info_syspath :: "string option"
  info_parent :: "string option"
  info_generation :: int
  info_linkspeed :: BoltLinkSpeed

definition link_speed_item :: "parse_as_int \<Rightarrow> udev_device \<Rightarrow> string \<Rightarrow> int \<Rightarrow> int \<times> int" where
  "link_speed_item parse udev name errno =
     (case sysfs_get_sysattr_value_as_int parse udev name errno of
        (res, errno') \<Rightarrow> (if res > 0 then res else 0, errno'))"

definition bolt_sysfs_read_link_speed ::
    "parse_as_int \<Rightarrow> udev_device \<Rightarrow> int \<Rightarrow> BoltLinkSpeed \<times> int" where
  "bolt_sysfs_read_link_speed parse udev errno =
     (case link_speed_item parse udev ''rx_lanes'' errno of (rxl, e1) \<Rightarrow>
      case link_speed_item parse udev ''rx_speed'' e1 of (rxs, e2) \<Rightarrow>
      case link_speed_item parse udev ''tx_lanes'' e2 of (txl, e3) \<Rightarrow>
      case link_speed_item parse udev ''tx_speed'' e3 of (txs, e4) \<Rightarrow>
        (\<lparr>rx_lanes = rxl, rx_speed = rxs, tx_lanes = txl, tx_speed = txs\<rparr>, e4))"

text \<open>
  \<^verbatim>\<open>bolt_sysfs_info_for_device\<close>. \<open>info\<close> is the caller's structure as it
  comes in; the result is the structure as it is left on a TRUE return, or the error
  set on a FALSE return. \<^verbatim>\<open>G_IO_ERROR\<close> carries the errno that
  \<^verbatim>\<open>g_io_error_from_errno\<close> turns into its code.
\<close>

definition bolt_sysfs_info_for_device ::
    "parse_as_int \<Rightarrow> udev_device \<Rightarrow> bool \<Rightarrow> BoltDevInfo \<Rightarrow> int \<Rightarrow> gerror + BoltDevInfo" where
  "bolt_sysfs_info_for_device parse udev full info errno =
     (let info1 = info\<lparr>info_keysize := - 1, info_ctim := - 1, info_full := False,
                       info_parent := None, info_generation := 0, info_syspath := None\<rparr>
      in case sysfs_get_sysattr_value_as_int parse udev ''authorized'' errno of
        (auth, e1) \<Rightarrow>
          (let info2 = info1\<lparr>info_authorized := auth\<rparr>
           in if auth < 0 then Inl (G_IO_ERROR e1)
              else
                (case sysfs_get_sysattr_size udev ''key'' e1 of (ks, e2) \<Rightarrow>
                 case sysfs_get_sysattr_value_as_int parse udev ''boot'' e2 of (bt, e3) \<Rightarrow>
                   (let info3 = info2\<lparr>info_keysize := ks, info_boot := bt\<rparr>
                    in if \<not> full then Inr info3
                       else
                         (let info4 = info3\<lparr>info_full := True,
                                info_ctim := bolt_sysfs_device_get_time udev BOLT_ST_CTIME,
                                info_syspath := u_syspath udev\<rparr>;
                              info5 = (case u_parent udev of
                                         None \<Rightarrow> info4
                                       | Some pattrs \<Rightarrow>
                                           info4\<lparr>info_parent :=
                                             (case pattrs ''unique_id'' of
                                                Inl e \<Rightarrow> None
                                              | Inr v \<Rightarrow> Some v)\<rparr>)
                          in case sysfs_get_sysattr_value_as_int parse udev ''generation'' e3 of
                            (gen, e4) \<Rightarrow>
                              (let info6 = (if gen > 0 then info5\<lparr>info_generation := gen\<rparr>
                                            else info5)
                               in case bolt_sysfs_read_link_speed parse udev e4 of
                                 (speed, e5) \<Rightarrow> Inr (info6\<lparr>info_linkspeed := speed\<rparr>)))))))"

subsection \<open>Boot ACL\<close>

text \<open>
  GLib's \<^verbatim>\<open>strstr\<close>-based \<^verbatim>\<open>g_strsplit\<close> and \<^verbatim>\<open>g_strjoinv\<close>.
  \<open>strstr\<close> gives the offset of the first occurrence of the needle. The loop of
  \<^verbatim>\<open>g_strsplit\<close> is \<^verbatim>\<open>while (--max_tokens && s)\<close>: its first argument
  here is \<^verbatim>\<open>max_tokens\<close> before the decrement, and it returns the tokens cut
  off so far together with the remainder, which \<^verbatim>\<open>g_strsplit\<close> appends
  when the string it was given is not empty. The delimiter is not empty
  (\<^verbatim>\<open>g_strsplit\<close> refuses an empty one).
\<close>

fun strstr :: "string \<Rightarrow> string \<Rightarrow> nat option" where
  "strstr [] needle = (if needle = [] then Some 0 else None)"
| "strstr (x # xs) needle =
     (if prefix needle (x # xs) then Some 0 else map_option Suc (strstr xs needle))"

fun strsplit_loop :: "nat \<Rightarrow> string \<Rightarrow> string \<Rightarrow> string list \<times> string" where
  "strsplit_loop (Suc (Suc n)) remainder delimiter =
     (case strstr remainder delimiter of
        None \<Rightarrow> ([], remainder)
      | Some len \<Rightarrow>
          (case strsplit_loop (Suc n) (drop (len + length delimiter) remainder) delimiter of
             (tokens, rest) \<Rightarrow> (take len remainder # tokens, rest)))"
| "strsplit_loop n remainder delimiter = ([], remainder)"

definition g_strsplit :: "string \<Rightarrow> string \<Rightarrow> int \<Rightarrow> string list" where
  "g_strsplit string delimiter max_tokens =
     (let m = (if max_tokens < 1 then 2147483647 else nat max_tokens)
      in case strsplit_loop m string delimiter of
        (tokens, remainder) \<Rightarrow> if string \<noteq> [] then tokens @ [remainder] else tokens)"

fun g_strjoinv :: "string \<Rightarrow> string list \<Rightarrow> string" where
  "g_strjoinv separator [] = []"
| "g_strjoinv separator (s # rest) = s @ concat (map (\<lambda>x. separator @ x) rest)"

text \<open>
  Modelled from the spec: \<^verbatim>\<open>bolt_strv_isempty\<close> (bolt-str.c) and
  \<^verbatim>\<open>bolt_error_for_errno\<close> (bolt-error.c) are not among the sources, and the
  spec does not describe them. The model of the first follows its name and the comment
  at its call ("if the attribute exists but is empty, return NULL"): a string vector
  is empty when it is NULL or holds no string. The second turns the errno of a failed
  call, a positive number, into an error.
\<close>

definition bolt_strv_isempty :: "string list option \<Rightarrow> bool" where
  "bolt_strv_isempty strv = (case strv of None \<Rightarrow> True | Some v \<Rightarrow> v = [])"

definition bolt_error_for_errno :: "int \<Rightarrow> gerror" where
  "bolt_error_for_errno e = G_IO_ERROR e"

definition ENOENT :: int where
  "ENOENT = 2"

definition bolt_sysfs_read_boot_acl :: "udev_device \<Rightarrow> gerror + string list option" where
  "bolt_sysfs_read_boot_acl udev =
     (case u_sysattr udev ''boot_acl'' of
        Inr val \<Rightarrow>
          (let acl = Some (g_strsplit val '','' 1024)
           in if \<not> bolt_strv_isempty acl then Inr acl else Inr None)
      | Inl e \<Rightarrow>
          if e \<noteq> ENOENT then Inl (bolt_error_for_errno e)
          else (if \<not> bolt_strv_isempty None then Inr None else Inr None))"

text \<open>
  Modelled from the spec: \<^verbatim>\<open>bolt_file_write_all\<close> (bolt-io.c) is not among the
  sources; the spec has the comma-joined list written back as a single attribute
  write. The model is the node that the path names after a write that succeeded: the
  string is the value of its \<^verbatim>\<open>boot_acl\<close> attribute.
\<close>

definition bolt_sysfs_write_boot_acl :: "udev_device \<Rightarrow> string list \<Rightarrow> udev_device" where
  "bolt_sysfs_write_boot_acl device acl =
     (let val = g_strjoinv '','' acl
      in device\<lparr>u_sysattr := (u_sysattr device)(''boot_acl'' := Inr val)\<rparr>)"

section \<open>A sample device table\<close>

text \<open>
  A host controller (address 0), a stored dock with the Auto policy below it (1), a
  stored disk that is not plugged in (2) and a camera that was never stored and never
  exported (3).
\<close>

definition example_objs :: "nat \<Rightarrow> BoltDevice" where
  "example_objs =
     (\<lambda>_. \<lparr>dev_uid = ''uid-host'', dev_syspath = Some ''/sys/devices/domain0/0-0'',
            dev_status = BOLT_STATUS_AUTH_CONNECTED, dev_policy = BOLT_POLICY_DEFAULT,
            dev_store = 0, dev_opath = Some ''/org/freedesktop/Bolt/devices/host''\<rparr>)
     (1 := \<lparr>dev_uid = ''uid-dock'', dev_syspath = Some ''/sys/devices/domain0/0-0/0-1'',
            dev_status = BOLT_STATUS_CONNECTED, dev_policy = BOLT_POLICY_AUTO,
            dev_store = 1, dev_opath = Some ''/org/freedesktop/Bolt/devices/dock''\<rparr>,
      2 := \<lparr>dev_uid = ''uid-disk'', dev_syspath = None,
            dev_status = BOLT_STATUS_DISCONNECTED, dev_policy = BOLT_POLICY_AUTO,
            dev_store = 1, dev_opath = Some ''/org/freedesktop/Bolt/devices/disk''\<rparr>,
      3 := \<lparr>dev_uid = ''uid-cam'', dev_syspath = Some ''/sys/devices/domain0/0-0/0-3'',
            dev_status = BOLT_STATUS_CONNECTED, dev_policy = BOLT_POLICY_DEFAULT,
            dev_store = 0, dev_opath = None\<rparr>)"

definition example_mgr :: manager where
  "example_mgr =
     \<lparr>devices = [0, 1, 2, 3], objs = example_objs, nalloc = 4, idle = [], emitted = [],
      warnings = [], bus = False\<rparr>"

definition example_start :: manager where
  "example_start =
     \<lparr>devices = [], objs = example_objs, nalloc = 0, idle = [], emitted = [],
      warnings = [], bus = False\<rparr>"

text \<open>
  Sample events: a thunderbolt node with a unique id and an \<^verbatim>\<open>authorized\<close>
  attribute, and an environment in which a node is Connected exactly when that
  attribute reads 0.
\<close>

definition example_node :: "string \<Rightarrow> string \<Rightarrow> string \<Rightarrow> string \<Rightarrow> string \<Rightarrow> udev_device" where
  "example_node action name path u auth =
     \<lparr>u_action = Some action, u_sysname = Some name, u_syspath = Some path,
      u_sysattr = (\<lambda>a. if a = ''unique_id'' then Inr u
                        else if a = ''authorized'' then Inr auth else Inl ENOENT),
      u_lstat = None, u_parent = None\<rparr>"

definition example_env :: environment where
  "example_env =
     \<lparr>status_from_udev =
        (\<lambda>u. if u_sysattr u ''authorized'' = Inr ''0'' then BOLT_STATUS_CONNECTED
              else BOLT_STATUS_AUTH_CONNECTED),
      device_export = (\<lambda>d. Some (''/org/freedesktop/Bolt/devices/'' @ dev_uid d)),
      store_list_uids = Inr [''uid-dock'', ''uid-bad'', ''uid-disk''],
      store_get_device =
        (\<lambda>u. if u = ''uid-bad'' then Inl BOLT_ERROR_STORE
              else Inr \<lparr>dev_uid = u, dev_syspath = None,
                        dev_status = BOLT_STATUS_DISCONNECTED, dev_policy = BOLT_POLICY_AUTO,
                        dev_store = 1, dev_opath = None\<rparr>),
      udev_new = True,
      udev_monitor = (\<lambda>name. \<lparr>mon_new = True, mon_filter = 0, mon_enable = 0, mon_fd = 3\<rparr>),
      udev_enumerate =
        [Some (example_node ''add'' ''0-1'' ''/sys/devices/domain0/0-0/0-1'' ''uid-dock'' ''0''),
         None]\<rparr>"

definition example_disk_node :: udev_device where
  "example_disk_node =
     example_node ''add'' ''0-2'' ''/sys/devices/domain0/0-0/0-1/0-2'' ''uid-disk'' ''0''"

definition example_dock_node :: udev_device where
  "example_dock_node =
     example_node ''change'' ''0-1'' ''/sys/devices/domain0/0-0/0-1'' ''uid-dock'' ''1''"

definition example_dock_unchanged :: udev_device where
  "example_dock_unchanged =
     example_node ''change'' ''0-1'' ''/sys/devices/domain0/0-0/0-1'' ''uid-dock'' ''0''"

definition example_attached :: manager where
  "example_attached =
     example_mgr\<lparr>objs := (objs example_mgr)
       (2 := bolt_device_connected example_env (objs example_mgr 2) example_disk_node)\<rparr>"

definition example_dock_remove :: udev_device where
  "example_dock_remove =
     example_node ''remove'' ''0-1'' ''/sys/devices/domain0/0-0/0-1'' ''uid-dock'' ''1''"

definition example_host_remove :: udev_device where
  "example_host_remove =
     example_node ''remove'' ''0-0'' ''/sys/devices/domain0/0-0'' ''uid-host'' ''1''"

text \<open>The same environment with a store that cannot list its records.\<close>

definition example_env_nolist :: environment where
  "example_env_nolist = example_env\<lparr>store_list_uids := Inl BOLT_ERROR_STORE\<rparr>"

text \<open>
  A sample parser that knows the strings 0 and 1 and rejects every other string with
  EINVAL, a caller's info structure, and a node without an \<^verbatim>\<open>authorized\<close>
  attribute.
\<close>

definition example_parse :: parse_as_int where
  "example_parse str errno =
     (if str = ''0'' then (Some 0, errno)
      else if str = ''1'' then (Some 1, errno)
      else (None, 22))"

definition example_info :: BoltDevInfo where
  "example_info =
     \<lparr>info_authorized = 0, info_keysize = 0, info_boot = 0, info_full = False, info_ctim = 0,
      info_syspath = None, info_parent = None, info_generation = 0,
      info_linkspeed = \<lparr>rx_lanes = 0, rx_speed = 0, tx_lanes = 0, tx_speed = 0\<rparr>\<rparr>"

definition example_bare_node :: udev_device where
  "example_bare_node =
     \<lparr>u_action = Some ''add'', u_sysname = Some ''0-1'',
      u_syspath = Some ''/sys/devices/domain0/0-0/0-1'',
      u_sysattr = (\<lambda>a. if a = ''unique_id'' then Inr ''uid-dock'' else Inl ENOENT),
      u_lstat = None, u_parent = None\<rparr>"

definition example_garbled_node :: udev_device where
  "example_garbled_node =
     example_node ''add'' ''0-1'' ''/sys/devices/domain0/0-0/0-1'' ''uid-dock'' ''x''"

text \<open>
  A domain node whose \<^verbatim>\<open>boot_acl\<close> attribute reads as given (a string, or
  the errno of the failed read).
\<close>

definition example_acl_node :: "int + string \<Rightarrow> udev_device" where
  "example_acl_node acl =
     \<lparr>u_action = None, u_sysname = Some ''domain0'', u_syspath = Some ''/sys/devices/domain0'',
      u_sysattr = (\<lambda>a. if a = ''boot_acl'' then acl else Inl ENOENT),
      u_lstat = None, u_parent = None\<rparr>"

text \<open>
  The parent path in the words of the spec: the syspath without the sysfs mount prefix
  and without its trailing segment.
\<close>

definition spec_parent_path :: "string \<Rightarrow> string" where
  "spec_parent_path path =
     (let rest = drop (length ''/sys'') path
      in case strrchr rest (CHR ''/'') of None \<Rightarrow> rest | Some pos \<Rightarrow> take pos rest)"

text \<open>
  Equality of lists "modulo trailing empty slots", in the words of the spec: the empty
  strings at the end of a list do not count.
\<close>

definition strip_trailing_empty :: "string list \<Rightarrow> string list" where
  "strip_trailing_empty l = rev (dropWhile (\<lambda>s. s = []) (rev l))"

section \<open>The authorization check\<close>

text \<open>
  Claim C3: \<^verbatim>\<open>maybe_authorize_device\<close> queues an authorization task for a device
  if and only if its status is not an authorized one, its policy is Auto and it is
  stored; in every other case it returns the manager as it was, with nothing queued.
\<close>

theorem maybe_authorize_device_enqueues_iff:
  "maybe_authorize_device mgr dev =
     (if \<not> bolt_status_is_authorized (dev_status (objs mgr dev)) \<and>
         dev_policy (objs mgr dev) = BOLT_POLICY_AUTO \<and> 0 < dev_store (objs mgr dev)
      then mgr\<lparr>idle := idle mgr @ [dev]\<rparr>
      else mgr)"
  by (simp add: maybe_authorize_device_def Let_def)

theorem maybe_authorize_device_enqueues_iff_witness:
  "maybe_authorize_device example_mgr 1 = example_mgr\<lparr>idle := idle example_mgr @ [1]\<rparr> \<and>
   maybe_authorize_device example_mgr 0 = example_mgr \<and>
   maybe_authorize_device example_mgr 3 = example_mgr \<and>
   maybe_authorize_device
     (example_mgr\<lparr>objs := (objs example_mgr)
        (3 := (objs example_mgr 3)\<lparr>dev_policy := BOLT_POLICY_AUTO\<rparr>)\<rparr>) 3 =
     example_mgr\<lparr>objs := (objs example_mgr)
        (3 := (objs example_mgr 3)\<lparr>dev_policy := BOLT_POLICY_AUTO\<rparr>)\<rparr>"
  using maybe_authorize_device_enqueues_iff [of example_mgr 1]
    maybe_authorize_device_enqueues_iff [of example_mgr 0]
    maybe_authorize_device_enqueues_iff [of example_mgr 3]
    maybe_authorize_device_enqueues_iff [of "example_mgr\<lparr>objs := (objs example_mgr)
        (3 := (objs example_mgr 3)\<lparr>dev_policy := BOLT_POLICY_AUTO\<rparr>)\<rparr>" 3]
  by (simp add: example_mgr_def example_objs_def)

section \<open>Parents and children\<close>

lemma strrchr_None: "strrchr s c = None \<longleftrightarrow> c \<notin> set s"
  by (induction s) (auto split: option.splits)

lemma strrchr_last: "c \<notin> set seg \<Longrightarrow> strrchr (body @ c # seg) c = Some (length body)"
  by (induction body) (auto simp: strrchr_None split: option.splits)

lemma get_children_loop_set:
  "set (get_children_loop mgr target xs res) =
     set res \<union> {d \<in> set xs. bolt_manager_get_parent mgr d = Some target}"
  by (induction xs arbitrary: res) auto

lemma example_parent_of_dock: "bolt_manager_get_parent example_mgr 1 = Some 0"
  by (simp add: bolt_manager_get_parent_def bolt_manager_get_device_by_syspath_def
      example_mgr_def example_objs_def)

lemma device_by_syspath_loop_Some:
  "device_by_syspath_loop h xs k = Some p \<Longrightarrow> p \<in> set xs \<and> dev_syspath (h p) = Some k"
  by (induction xs) (auto split: if_splits)

lemma device_by_syspath_loop_None:
  "device_by_syspath_loop h xs k = None \<longleftrightarrow> (\<forall>q\<in>set xs. dev_syspath (h q) \<noteq> Some k)"
  by (induction xs) auto

lemma get_parent_unfold:
  "bolt_manager_get_parent mgr dev =
     (case dev_syspath (objs mgr dev) of
        None \<Rightarrow> None
      | Some path \<Rightarrow>
          (case strrchr (drop 4 path) (CHR ''/'') of
             None \<Rightarrow> None
           | Some pos \<Rightarrow>
               if pos < 2 then None
               else bolt_manager_get_device_by_syspath mgr (take (4 + pos) path)))"
proof -
  have l: "length ''/sys'' = 4" by simp
  show ?thesis by (simp only: bolt_manager_get_parent_def Let_def l)
qed

text \<open>
  Claim C5, as amended: for a device whose syspath has at least the four characters of
  the sysfs mount prefix, \<^verbatim>\<open>bolt_manager_get_parent\<close> looks for the last slash
  behind the prefix. It returns none when there is no such slash or when fewer than two
  characters lie between the prefix and that slash. Otherwise it cuts the syspath at
  that slash, keeping the prefix, and returns the first table device whose syspath
  equals the cut path, or none when the table has no such device.
\<close>

theorem get_parent_lookup:
  assumes sp: "dev_syspath (objs mgr dev) = Some path" and len: "4 \<le> length path"
  shows "(CHR ''/'' \<notin> set (drop 4 path) \<longrightarrow> bolt_manager_get_parent mgr dev = None) \<and>
         (\<forall>body seg. drop 4 path = body @ CHR ''/'' # seg \<and> CHR ''/'' \<notin> set seg \<longrightarrow>
            (length body < 2 \<longrightarrow> bolt_manager_get_parent mgr dev = None) \<and>
            (2 \<le> length body \<longrightarrow>
               bolt_manager_get_parent mgr dev =
                 bolt_manager_get_device_by_syspath mgr (take 4 path @ body) \<and>
               (case bolt_manager_get_parent mgr dev of
                  Some p \<Rightarrow> p \<in> set (devices mgr) \<and>
                            dev_syspath (objs mgr p) = Some (take 4 path @ body)
                | None \<Rightarrow> \<forall>q\<in>set (devices mgr).
                            dev_syspath (objs mgr q) \<noteq> Some (take 4 path @ body))))"
proof (intro conjI impI allI)
  assume "CHR ''/'' \<notin> set (drop 4 path)"
  then show "bolt_manager_get_parent mgr dev = None"
    using sp by (simp add: get_parent_unfold strrchr_None [THEN iffD2])
next
  fix body seg
  assume d: "drop 4 path = body @ CHR ''/'' # seg \<and> CHR ''/'' \<notin> set seg"
  then have r: "strrchr (drop 4 path) (CHR ''/'') = Some (length body)"
    by (simp add: strrchr_last)
  have tk: "take (4 + length body) path = take 4 path @ body"
  proof -
    have "path = take 4 path @ drop 4 path" by simp
    then have "path = take 4 path @ body @ CHR ''/'' # seg" using d by simp
    then have "take (4 + length body) path = take (4 + length body) (take 4 path @ body @ CHR ''/'' # seg)"
      by simp
    also have "\<dots> = take 4 path @ body" using len by simp
    finally show ?thesis .
  qed
  have gp: "bolt_manager_get_parent mgr dev =
      (if length body < 2 then None
       else bolt_manager_get_device_by_syspath mgr (take 4 path @ body))"
    using sp r tk by (simp add: get_parent_unfold)
  { assume "length body < 2"
    then show "bolt_manager_get_parent mgr dev = None" using gp by simp }
  { assume b: "2 \<le> length body"
    then show eq: "bolt_manager_get_parent mgr dev =
        bolt_manager_get_device_by_syspath mgr (take 4 path @ body)" using gp by simp
    show "case bolt_manager_get_parent mgr dev of
            Some p \<Rightarrow> p \<in> set (devices mgr) \<and>
                      dev_syspath (objs mgr p) = Some (take 4 path @ body)
          | None \<Rightarrow> \<forall>q\<in>set (devices mgr).
                      dev_syspath (objs mgr q) \<noteq> Some (take 4 path @ body)"
      unfolding eq bolt_manager_get_device_by_syspath_def
      by (auto split: option.splits dest: device_by_syspath_loop_Some
          simp: device_by_syspath_loop_None) }
qed

theorem get_parent_lookup_witness:
  "dev_syspath (objs example_mgr 1) = Some ''/sys/devices/domain0/0-0/0-1'' \<and>
   4 \<le> length ''/sys/devices/domain0/0-0/0-1'' \<and>
   drop 4 ''/sys/devices/domain0/0-0/0-1'' = ''/devices/domain0/0-0'' @ CHR ''/'' # ''0-1'' \<and>
   CHR ''/'' \<notin> set ''0-1'' \<and> 2 \<le> length ''/devices/domain0/0-0'' \<and>
   bolt_manager_get_parent example_mgr 1 =
     bolt_manager_get_device_by_syspath example_mgr ''/sys/devices/domain0/0-0''"
proof -
  have sp: "dev_syspath (objs example_mgr 1) = Some ''/sys/devices/domain0/0-0/0-1''"
    by (simp add: example_mgr_def example_objs_def)
  have len: "4 \<le> length ''/sys/devices/domain0/0-0/0-1''" by simp
  from get_parent_lookup [OF sp len]
  have "\<forall>body seg. drop 4 ''/sys/devices/domain0/0-0/0-1'' = body @ CHR ''/'' # seg \<and> CHR ''/'' \<notin> set seg \<longrightarrow>
            (2 \<le> length body \<longrightarrow>
               bolt_manager_get_parent example_mgr 1 =
                 bolt_manager_get_device_by_syspath example_mgr (take 4 ''/sys/devices/domain0/0-0/0-1'' @ body))"
    by blast
  from this [rule_format, of "''/devices/domain0/0-0''" "''0-1''"] sp
  show ?thesis by simp
qed

text \<open>
  The claim as it was stated fails on the sample table: the parent found for the dock
  is the host, whose syspath keeps the mount prefix, while the path without the prefix
  names no device of the table.
\<close>

theorem get_parent_lookup_counterexample:
  "dev_syspath (objs example_mgr 1) = Some ''/sys/devices/domain0/0-0/0-1'' \<and>
   bolt_manager_get_parent example_mgr 1 = Some 0 \<and>
   dev_syspath (objs example_mgr 0) = Some ''/sys/devices/domain0/0-0'' \<and>
   spec_parent_path ''/sys/devices/domain0/0-0/0-1'' = ''/devices/domain0/0-0'' \<and>
   bolt_manager_get_device_by_syspath example_mgr
     (spec_parent_path ''/sys/devices/domain0/0-0/0-1'') = None"
  by (simp add: bolt_manager_get_parent_def bolt_manager_get_device_by_syspath_def
      example_mgr_def example_objs_def spec_parent_path_def)

text \<open>
  Claim C6: for devices \<open>p\<close> and \<open>c\<close> of the device table, \<open>c\<close> is among the
  children computed for \<open>p\<close> if and only if the parent computed for \<open>c\<close> is \<open>p\<close>.
\<close>

theorem children_iff_parent:
  "c \<in> set (devices mgr) \<Longrightarrow>
     (c \<in> set (bolt_manager_get_children mgr p) \<longleftrightarrow> bolt_manager_get_parent mgr c = Some p)"
  by (simp add: bolt_manager_get_children_def get_children_loop_set)

theorem children_iff_parent_witness:
  "1 \<in> set (devices example_mgr) \<and> 0 \<in> set (devices example_mgr) \<and>
   bolt_manager_get_parent example_mgr 1 = Some 0 \<and>
   1 \<in> set (bolt_manager_get_children example_mgr 0)"
proof -
  have c: "1 \<in> set (devices example_mgr)" and p: "0 \<in> set (devices example_mgr)"
    by (simp_all add: example_mgr_def)
  from children_iff_parent [OF c, of 0] example_parent_of_dock
  have "1 \<in> set (bolt_manager_get_children example_mgr 0)" by simp
  with c p example_parent_of_dock show ?thesis by simp
qed

section \<open>Attach, change and remove events\<close>

lemma maybe_authorize_device_eq:
  "maybe_authorize_device mgr dev =
     (if \<not> bolt_status_is_authorized (dev_status (objs mgr dev)) \<and>
         dev_policy (objs mgr dev) = BOLT_POLICY_AUTO \<and> 0 < dev_store (objs mgr dev)
      then mgr\<lparr>idle := idle mgr @ [dev]\<rparr>
      else mgr)"
  by (simp add: maybe_authorize_device_def Let_def)

lemma authorize_children_loop_eq:
  "authorize_children_loop m cs =
     m\<lparr>idle := idle m @
        filter (\<lambda>c. \<not> bolt_status_is_authorized (dev_status (objs m c)) \<and>
                    dev_policy (objs m c) = BOLT_POLICY_AUTO \<and> 0 < dev_store (objs m c)) cs\<rparr>"
  by (induction cs arbitrary: m) (simp_all add: maybe_authorize_device_eq)

lemma changed_idle:
  "idle (handle_udev_device_changed E m p udev) =
     (if bolt_status_is_authorized (status_from_udev E udev)
      then idle m @
        filter (\<lambda>c. \<not> bolt_status_is_authorized (dev_status (objs (m\<lparr>objs := (objs m)(p := bolt_device_update_from_udev E (objs m p) udev)\<rparr>) c)) \<and>
                    dev_policy (objs (m\<lparr>objs := (objs m)(p := bolt_device_update_from_udev E (objs m p) udev)\<rparr>) c) = BOLT_POLICY_AUTO \<and>
                    0 < dev_store (objs (m\<lparr>objs := (objs m)(p := bolt_device_update_from_udev E (objs m p) udev)\<rparr>) c))
          (bolt_manager_get_children (m\<lparr>objs := (objs m)(p := bolt_device_update_from_udev E (objs m p) udev)\<rparr>) p)
      else idle m)"
  by (simp add: handle_udev_device_changed_def Let_def authorize_children_loop_eq
      bolt_device_update_from_udev_def)

lemma get_children_set:
  "set (bolt_manager_get_children m p) =
     {c \<in> set (devices m). bolt_manager_get_parent m c = Some p}"
  by (simp add: bolt_manager_get_children_def get_children_loop_set)

lemma attached_idle:
  "\<exists>new. idle (handle_udev_device_attached E m d udev) = idle m @ new \<and>
     (\<forall>c\<in>set new. c = d \<and>
        (case bolt_manager_get_parent
                (m\<lparr>objs := (objs m)(d := bolt_device_connected E (objs m d) udev)\<rparr>) d of
           None \<Rightarrow> True
         | Some parent \<Rightarrow>
             bolt_status_is_authorized
               (dev_status (objs (m\<lparr>objs := (objs m)(d := bolt_device_connected E (objs m d) udev)\<rparr>)
                  parent))))"
proof -
  let ?m1 = "m\<lparr>objs := (objs m)(d := bolt_device_connected E (objs m d) udev)\<rparr>"
  have "idle (handle_udev_device_attached E m d udev) = idle m \<or>
    (idle (handle_udev_device_attached E m d udev) = idle m @ [d] \<and>
     (case bolt_manager_get_parent ?m1 d of None \<Rightarrow> True
      | Some parent \<Rightarrow> bolt_status_is_authorized (dev_status (objs ?m1 parent))))"
    by (simp add: handle_udev_device_attached_def Let_def maybe_authorize_device_eq
        split: option.splits)
  then show ?thesis
  proof
    assume "idle (handle_udev_device_attached E m d udev) = idle m"
    then have "idle (handle_udev_device_attached E m d udev) = idle m @ [] \<and>
      (\<forall>c\<in>set []. c = d \<and> (case bolt_manager_get_parent ?m1 d of None \<Rightarrow> True
      | Some parent \<Rightarrow> bolt_status_is_authorized (dev_status (objs ?m1 parent))))" by simp
    then show ?thesis by blast
  next
    assume "idle (handle_udev_device_attached E m d udev) = idle m @ [d] \<and>
     (case bolt_manager_get_parent ?m1 d of None \<Rightarrow> True
      | Some parent \<Rightarrow> bolt_status_is_authorized (dev_status (objs ?m1 parent)))"
    then have "idle (handle_udev_device_attached E m d udev) = idle m @ [d] \<and>
      (\<forall>c\<in>set [d]. c = d \<and> (case bolt_manager_get_parent ?m1 d of None \<Rightarrow> True
      | Some parent \<Rightarrow> bolt_status_is_authorized (dev_status (objs ?m1 parent))))" by simp
    then show ?thesis by blast
  qed
qed

lemma added_idle: "idle (handle_udev_device_added E m udev) = idle m"
  by (simp add: handle_udev_device_added_def add_new_device_def Let_def
      split: sum.splits option.splits)

lemma detached_idle: "idle (handle_udev_device_detached m d) = idle m"
  by (simp add: handle_udev_device_detached_def)

lemma removed_idle: "idle (hanlde_udev_device_removed m d) = idle m"
  by (simp add: hanlde_udev_device_removed_def Let_def split: option.splits)

lemma uevent_idle:
  "\<exists>new. idle (handle_uevent_udev E m received) = idle m @ new \<and>
     (\<forall>c\<in>set new. \<exists>device u d.
        received = Some device \<and>
        (u_action device = Some ''add'' \<or> u_action device = Some ''change'') \<and>
        udev_device_get_sysattr_value device ''unique_id'' = Some u \<and>
        bolt_manager_get_device_by_uid m u = Some d \<and>
        (if bolt_device_is_connected (objs m d)
         then bolt_status_is_authorized (status_from_udev E device) \<and>
              c \<in> set (devices m) \<and>
              bolt_manager_get_parent
                (m\<lparr>objs := (objs m)(d := bolt_device_update_from_udev E (objs m d) device)\<rparr>) c = Some d
         else c = d \<and>
              (case bolt_manager_get_parent
                      (m\<lparr>objs := (objs m)(d := bolt_device_connected E (objs m d) device)\<rparr>) d of
                 None \<Rightarrow> True
               | Some parent \<Rightarrow>
                   bolt_status_is_authorized
                     (dev_status (objs (m\<lparr>objs := (objs m)(d := bolt_device_connected E (objs m d) device)\<rparr>)
                        parent)))))"
proof -
  have triv: "idle (handle_uevent_udev E m received) = idle m \<Longrightarrow> ?thesis"
  proof -
    assume "idle (handle_uevent_udev E m received) = idle m"
    then have "idle (handle_uevent_udev E m received) = idle m @ []" by simp
    then show ?thesis by (intro exI [of _ "[]"]) simp
  qed
  show ?thesis
  proof (cases received)
    case None
    then show ?thesis by (intro triv) (simp add: handle_uevent_udev_def)
  next
    case (Some device)
    show ?thesis
    proof (cases "(u_action device = Some ''add'' \<or> u_action device = Some ''change'') \<and>
        udev_device_get_sysattr_value device ''unique_id'' \<noteq> None \<and>
        bolt_manager_get_device_by_uid m (the (udev_device_get_sysattr_value device ''unique_id'')) \<noteq> None")
      case False
      then show ?thesis using Some
        by (intro triv)
          (auto simp: handle_uevent_udev_def added_idle detached_idle removed_idle
            split: option.splits)
    next
      case True
      then obtain u d where u: "udev_device_get_sysattr_value device ''unique_id'' = Some u"
        and d: "bolt_manager_get_device_by_uid m u = Some d"
        and act: "u_action device = Some ''add'' \<or> u_action device = Some ''change''"
        by auto
      show ?thesis
      proof (cases "bolt_device_is_connected (objs m d)")
        case False
        then have ev: "handle_uevent_udev E m received = handle_udev_device_attached E m d device"
          using Some u d act by (auto simp: handle_uevent_udev_def)
        from attached_idle [of E m d device] obtain new where
          "idle (handle_udev_device_attached E m d device) = idle m @ new"
          "\<forall>c\<in>set new. c = d \<and>
            (case bolt_manager_get_parent
                (m\<lparr>objs := (objs m)(d := bolt_device_connected E (objs m d) device)\<rparr>) d of
               None \<Rightarrow> True
             | Some parent \<Rightarrow> bolt_status_is_authorized
               (dev_status (objs (m\<lparr>objs := (objs m)(d := bolt_device_connected E (objs m d) device)\<rparr>)
                  parent)))"
          by blast
        then show ?thesis unfolding ev using Some u d act False
          by (intro exI [of _ new]) auto
      next
        case True
        then have ev: "handle_uevent_udev E m received = handle_udev_device_changed E m d device"
          using Some u d act by (auto simp: handle_uevent_udev_def)
        show ?thesis
        proof (cases "bolt_status_is_authorized (status_from_udev E device)")
          case False
          then show ?thesis by (intro triv) (simp add: ev changed_idle)
        next
          case auth: True
          show ?thesis unfolding ev
            apply (rule exI [of _ "filter (\<lambda>c. \<not> bolt_status_is_authorized (dev_status (objs (m\<lparr>objs := (objs m)(d := bolt_device_update_from_udev E (objs m d) device)\<rparr>) c)) \<and>
                    dev_policy (objs (m\<lparr>objs := (objs m)(d := bolt_device_update_from_udev E (objs m d) device)\<rparr>) c) = BOLT_POLICY_AUTO \<and>
                    0 < dev_store (objs (m\<lparr>objs := (objs m)(d := bolt_device_update_from_udev E (objs m d) device)\<rparr>) c))
          (bolt_manager_get_children (m\<lparr>objs := (objs m)(d := bolt_device_update_from_udev E (objs m d) device)\<rparr>) d)"])
            using Some u d act True auth
            by (auto simp: changed_idle get_children_set)
        qed
      qed
    qed
  qed
qed

text \<open>
  Claim C1, as amended: in the attached path, when the refreshed device is Connected
  and the syspath lookup finds its parent in the table but that parent is not
  authorized, authorization is deferred: the handler only refreshes the device and
  queues nothing. The device is reconsidered only when a later change event shows the
  device found as its parent in an authorized status: a change event whose refreshed
  status is not authorized queues nothing, one whose status is authorized queues
  exactly the table devices whose parent lookup yields the changed device and that are
  stored, have the Auto policy and are not authorized, and no other event queues a
  device except that device's own attach, which queues it only when its parent lookup
  finds nothing or an authorized parent. When the lookup finds no parent in the table,
  the attached handler logs a warning and still calls
  \<^verbatim>\<open>maybe_authorize_device\<close>, which queues a stored Auto device at once.
\<close>

theorem attached_authorization:
  assumes conn: "status_from_udev E udev = BOLT_STATUS_CONNECTED"
  shows
   "(let mgr1 = mgr\<lparr>objs := (objs mgr)(dev := bolt_device_connected E (objs mgr dev) udev)\<rparr>
     in (\<forall>parent. bolt_manager_get_parent mgr1 dev = Some parent \<and>
                   \<not> bolt_status_is_authorized (dev_status (objs mgr1 parent)) \<longrightarrow>
            handle_udev_device_attached E mgr dev udev = mgr1) \<and>
        (bolt_manager_get_parent mgr1 dev = None \<longrightarrow>
            handle_udev_device_attached E mgr dev udev =
              maybe_authorize_device
                (mgr1\<lparr>warnings := warnings mgr1 @ [WarnNoParent (dev_uid (objs mgr dev))]\<rparr>) dev \<and>
            idle (handle_udev_device_attached E mgr dev udev) =
              (if dev_policy (objs mgr dev) = BOLT_POLICY_AUTO \<and> 0 < dev_store (objs mgr dev)
               then idle mgr @ [dev] else idle mgr))) \<and>
    (let mgr2 = mgr'\<lparr>objs := (objs mgr')(p := bolt_device_update_from_udev E (objs mgr' p) pudev)\<rparr>
     in bolt_status_is_authorized (status_from_udev E pudev) \<longrightarrow>
          (\<forall>c\<in>set (devices mgr').
              bolt_manager_get_parent mgr2 c = Some p \<and>
              \<not> bolt_status_is_authorized (dev_status (objs mgr2 c)) \<and>
              dev_policy (objs mgr2 c) = BOLT_POLICY_AUTO \<and> 0 < dev_store (objs mgr2 c) \<longrightarrow>
              c \<in> set (idle (handle_udev_device_changed E mgr' p pudev)))) \<and>
    (\<not> bolt_status_is_authorized (status_from_udev E pudev) \<longrightarrow>
       idle (handle_udev_device_changed E mgr' p pudev) = idle mgr') \<and>
    (let mgr2 = mgr'\<lparr>objs := (objs mgr')(p := bolt_device_update_from_udev E (objs mgr' p) pudev)\<rparr>
     in bolt_status_is_authorized (status_from_udev E pudev) \<longrightarrow>
          (\<exists>new. idle (handle_udev_device_changed E mgr' p pudev) = idle mgr' @ new \<and>
             (\<forall>c. c \<in> set new \<longleftrightarrow>
                c \<in> set (devices mgr') \<and> bolt_manager_get_parent mgr2 c = Some p \<and>
                \<not> bolt_status_is_authorized (dev_status (objs mgr2 c)) \<and>
                dev_policy (objs mgr2 c) = BOLT_POLICY_AUTO \<and> 0 < dev_store (objs mgr2 c)))) \<and>
    (\<exists>new. idle (handle_uevent_udev E m received) = idle m @ new \<and>
       (\<forall>c\<in>set new. \<exists>device u d.
          received = Some device \<and>
          (u_action device = Some ''add'' \<or> u_action device = Some ''change'') \<and>
          udev_device_get_sysattr_value device ''unique_id'' = Some u \<and>
          bolt_manager_get_device_by_uid m u = Some d \<and>
          (if bolt_device_is_connected (objs m d)
           then bolt_status_is_authorized (status_from_udev E device) \<and>
                c \<in> set (devices m) \<and>
                bolt_manager_get_parent
                  (m\<lparr>objs := (objs m)(d := bolt_device_update_from_udev E (objs m d) device)\<rparr>) c = Some d
           else c = d \<and>
                (case bolt_manager_get_parent
                        (m\<lparr>objs := (objs m)(d := bolt_device_connected E (objs m d) device)\<rparr>) d of
                   None \<Rightarrow> True
                 | Some parent \<Rightarrow>
                     bolt_status_is_authorized
                       (dev_status (objs (m\<lparr>objs := (objs m)(d := bolt_device_connected E (objs m d) device)\<rparr>)
                          parent))))))"
proof -
  have first: "(let mgr1 = mgr\<lparr>objs := (objs mgr)(dev := bolt_device_connected E (objs mgr dev) udev)\<rparr>
     in (\<forall>parent. bolt_manager_get_parent mgr1 dev = Some parent \<and>
                   \<not> bolt_status_is_authorized (dev_status (objs mgr1 parent)) \<longrightarrow>
            handle_udev_device_attached E mgr dev udev = mgr1) \<and>
        (bolt_manager_get_parent mgr1 dev = None \<longrightarrow>
            handle_udev_device_attached E mgr dev udev =
              maybe_authorize_device
                (mgr1\<lparr>warnings := warnings mgr1 @ [WarnNoParent (dev_uid (objs mgr dev))]\<rparr>) dev \<and>
            idle (handle_udev_device_attached E mgr dev udev) =
              (if dev_policy (objs mgr dev) = BOLT_POLICY_AUTO \<and> 0 < dev_store (objs mgr dev)
               then idle mgr @ [dev] else idle mgr))) \<and>
    (let mgr2 = mgr'\<lparr>objs := (objs mgr')(p := bolt_device_update_from_udev E (objs mgr' p) pudev)\<rparr>
     in bolt_status_is_authorized (status_from_udev E pudev) \<longrightarrow>
          (\<forall>c\<in>set (devices mgr').
              bolt_manager_get_parent mgr2 c = Some p \<and>
              \<not> bolt_status_is_authorized (dev_status (objs mgr2 c)) \<and>
              dev_policy (objs mgr2 c) = BOLT_POLICY_AUTO \<and> 0 < dev_store (objs mgr2 c) \<longrightarrow>
              c \<in> set (idle (handle_udev_device_changed E mgr' p pudev))))"
  proof -
    have a: "\<And>parent. bolt_manager_get_parent (mgr\<lparr>objs := (objs mgr)(dev := bolt_device_connected E (objs mgr dev) udev)\<rparr>) dev = Some parent \<Longrightarrow>
        \<not> bolt_status_is_authorized (dev_status (objs (mgr\<lparr>objs := (objs mgr)(dev := bolt_device_connected E (objs mgr dev) udev)\<rparr>) parent)) \<Longrightarrow>
        handle_udev_device_attached E mgr dev udev = mgr\<lparr>objs := (objs mgr)(dev := bolt_device_connected E (objs mgr dev) udev)\<rparr>"
      using conn by (simp add: handle_udev_device_attached_def Let_def bolt_device_connected_def)
    have b: "bolt_manager_get_parent (mgr\<lparr>objs := (objs mgr)(dev := bolt_device_connected E (objs mgr dev) udev)\<rparr>) dev = None \<Longrightarrow>
        handle_udev_device_attached E mgr dev udev =
          maybe_authorize_device
            (mgr\<lparr>objs := (objs mgr)(dev := bolt_device_connected E (objs mgr dev) udev),
                 warnings := warnings mgr @ [WarnNoParent (dev_uid (objs mgr dev))]\<rparr>) dev"
      using conn by (simp add: handle_udev_device_attached_def Let_def bolt_device_connected_def)
    have b2: "idle (maybe_authorize_device
            (mgr\<lparr>objs := (objs mgr)(dev := bolt_device_connected E (objs mgr dev) udev),
                 warnings := warnings mgr @ [WarnNoParent (dev_uid (objs mgr dev))]\<rparr>) dev) =
          (if dev_policy (objs mgr dev) = BOLT_POLICY_AUTO \<and> 0 < dev_store (objs mgr dev)
                 then idle mgr @ [dev] else idle mgr)"
      using conn by (simp add: maybe_authorize_device_eq bolt_device_connected_def)
    have c: "bolt_status_is_authorized (status_from_udev E pudev) \<Longrightarrow>
       idle (handle_udev_device_changed E mgr' p pudev) =
         idle mgr' @ filter (\<lambda>c. \<not> bolt_status_is_authorized (dev_status (objs (mgr'\<lparr>objs := (objs mgr')(p := bolt_device_update_from_udev E (objs mgr' p) pudev)\<rparr>) c)) \<and>
                      dev_policy (objs (mgr'\<lparr>objs := (objs mgr')(p := bolt_device_update_from_udev E (objs mgr' p) pudev)\<rparr>) c) = BOLT_POLICY_AUTO \<and> 0 < dev_store (objs (mgr'\<lparr>objs := (objs mgr')(p := bolt_device_update_from_udev E (objs mgr' p) pudev)\<rparr>) c))
              (bolt_manager_get_children (mgr'\<lparr>objs := (objs mgr')(p := bolt_device_update_from_udev E (objs mgr' p) pudev)\<rparr>) p)"
      by (simp add: handle_udev_device_changed_def Let_def authorize_children_loop_eq
          bolt_device_update_from_udev_def)
    show ?thesis
      unfolding Let_def
      apply (intro conjI allI impI ballI)
      subgoal for parent using a by blast
      subgoal using b by simp
      subgoal using b b2 by simp
      subgoal for c using c
        by (simp add: bolt_manager_get_children_def get_children_loop_set)
      done
  qed
  have quiet: "\<not> bolt_status_is_authorized (status_from_udev E pudev) \<longrightarrow>
       idle (handle_udev_device_changed E mgr' p pudev) = idle mgr'"
    by (simp add: changed_idle)
  have exact: "let mgr2 = mgr'\<lparr>objs := (objs mgr')(p := bolt_device_update_from_udev E (objs mgr' p) pudev)\<rparr>
     in bolt_status_is_authorized (status_from_udev E pudev) \<longrightarrow>
          (\<exists>new. idle (handle_udev_device_changed E mgr' p pudev) = idle mgr' @ new \<and>
             (\<forall>c. c \<in> set new \<longleftrightarrow>
                c \<in> set (devices mgr') \<and> bolt_manager_get_parent mgr2 c = Some p \<and>
                \<not> bolt_status_is_authorized (dev_status (objs mgr2 c)) \<and>
                dev_policy (objs mgr2 c) = BOLT_POLICY_AUTO \<and> 0 < dev_store (objs mgr2 c)))"
    unfolding Let_def
  proof
    assume auth: "bolt_status_is_authorized (status_from_udev E pudev)"
    show "\<exists>new. idle (handle_udev_device_changed E mgr' p pudev) = idle mgr' @ new \<and>
             (\<forall>c. c \<in> set new \<longleftrightarrow>
                c \<in> set (devices mgr') \<and>
                bolt_manager_get_parent (mgr'\<lparr>objs := (objs mgr')(p := bolt_device_update_from_udev E (objs mgr' p) pudev)\<rparr>) c = Some p \<and>
                \<not> bolt_status_is_authorized (dev_status (objs (mgr'\<lparr>objs := (objs mgr')(p := bolt_device_update_from_udev E (objs mgr' p) pudev)\<rparr>) c)) \<and>
                dev_policy (objs (mgr'\<lparr>objs := (objs mgr')(p := bolt_device_update_from_udev E (objs mgr' p) pudev)\<rparr>) c) = BOLT_POLICY_AUTO \<and>
                0 < dev_store (objs (mgr'\<lparr>objs := (objs mgr')(p := bolt_device_update_from_udev E (objs mgr' p) pudev)\<rparr>) c))"
      apply (rule exI [of _ "filter (\<lambda>c. \<not> bolt_status_is_authorized (dev_status (objs (mgr'\<lparr>objs := (objs mgr')(p := bolt_device_update_from_udev E (objs mgr' p) pudev)\<rparr>) c)) \<and>
                    dev_policy (objs (mgr'\<lparr>objs := (objs mgr')(p := bolt_device_update_from_udev E (objs mgr' p) pudev)\<rparr>) c) = BOLT_POLICY_AUTO \<and>
                    0 < dev_store (objs (mgr'\<lparr>objs := (objs mgr')(p := bolt_device_update_from_udev E (objs mgr' p) pudev)\<rparr>) c))
          (bolt_manager_get_children (mgr'\<lparr>objs := (objs mgr')(p := bolt_device_update_from_udev E (objs mgr' p) pudev)\<rparr>) p)"])
      using auth by (auto simp: changed_idle get_children_set)
  qed
  from first quiet exact uevent_idle [of E m received] show ?thesis by blast
qed

theorem attached_authorization_witness:
  "status_from_udev example_env example_disk_node = BOLT_STATUS_CONNECTED \<and>
   bolt_manager_get_parent example_attached 2 = Some 1 \<and>
   \<not> bolt_status_is_authorized (dev_status (objs example_attached 1)) \<and>
   handle_udev_device_attached example_env example_mgr 2 example_disk_node = example_attached \<and>
   idle example_attached = [] \<and>
   bolt_status_is_authorized (status_from_udev example_env example_dock_node) \<and>
   2 \<in> set (devices example_attached) \<and>
   2 \<in> set (idle (handle_udev_device_changed example_env example_attached 1 example_dock_node)) \<and>
   (\<exists>new. idle (handle_udev_device_changed example_env example_attached 1 example_dock_node) =
      idle example_attached @ new \<and> 2 \<in> set new \<and> 3 \<notin> set new) \<and>
   \<not> bolt_status_is_authorized (status_from_udev example_env example_dock_unchanged) \<and>
   idle (handle_udev_device_changed example_env example_attached 1 example_dock_unchanged) =
     idle example_attached \<and>
   u_action example_dock_remove = Some ''remove'' \<and>
   idle (handle_uevent_udev example_env example_attached (Some example_dock_remove)) =
     idle example_attached"
proof -
  have conn: "status_from_udev example_env example_disk_node = BOLT_STATUS_CONNECTED"
    by code_simp
  have par: "bolt_manager_get_parent example_attached 2 = Some 1"
    by code_simp
  have una: "\<not> bolt_status_is_authorized (dev_status (objs example_attached 1))"
    by code_simp
  have idl: "idle example_attached = []"
    by code_simp
  have aut: "bolt_status_is_authorized (status_from_udev example_env example_dock_node)"
    by code_simp
  have naut: "\<not> bolt_status_is_authorized (status_from_udev example_env example_dock_unchanged)"
    by code_simp
  have mem: "2 \<in> set (devices example_attached)"
    by code_simp
  have rem: "u_action example_dock_remove = Some ''remove''"
    by code_simp
  have chi: "bolt_manager_get_parent
      (example_attached\<lparr>objs := (objs example_attached)
         (1 := bolt_device_update_from_udev example_env (objs example_attached 1) example_dock_node)\<rparr>) 2 = Some 1 \<and>
      \<not> bolt_status_is_authorized (dev_status (objs
      (example_attached\<lparr>objs := (objs example_attached)
         (1 := bolt_device_update_from_udev example_env (objs example_attached 1) example_dock_node)\<rparr>) 2)) \<and>
      dev_policy (objs
      (example_attached\<lparr>objs := (objs example_attached)
         (1 := bolt_device_update_from_udev example_env (objs example_attached 1) example_dock_node)\<rparr>) 2) = BOLT_POLICY_AUTO \<and>
      0 < dev_store (objs
      (example_attached\<lparr>objs := (objs example_attached)
         (1 := bolt_device_update_from_udev example_env (objs example_attached 1) example_dock_node)\<rparr>) 2)"
    by code_simp
  have cam: "bolt_manager_get_parent
      (example_attached\<lparr>objs := (objs example_attached)
         (1 := bolt_device_update_from_udev example_env (objs example_attached 1) example_dock_node)\<rparr>) 3 \<noteq> Some 1"
    by code_simp
  note t = attached_authorization [OF conn, where mgr = example_mgr and dev = 2
      and mgr' = example_attached and p = 1 and pudev = example_dock_node
      and m = example_attached and received = "Some example_dock_remove",
      unfolded Let_def, folded example_attached_def]
  note q = attached_authorization [OF conn, where mgr = example_mgr and dev = 2
      and mgr' = example_attached and p = 1 and pudev = example_dock_unchanged
      and m = example_attached and received = "Some example_dock_remove",
      unfolded Let_def, folded example_attached_def]
  from t par una
  have att: "handle_udev_device_attached example_env example_mgr 2 example_disk_node = example_attached"
    by blast
  from t aut mem chi
  have que: "2 \<in> set (idle (handle_udev_device_changed example_env example_attached 1 example_dock_node))"
    by blast
  from t aut obtain new where
    n1: "idle (handle_udev_device_changed example_env example_attached 1 example_dock_node) =
      idle example_attached @ new"
    and n2: "\<forall>c. c \<in> set new \<longleftrightarrow>
        c \<in> set (devices example_attached) \<and>
        bolt_manager_get_parent (example_attached\<lparr>objs := (objs example_attached)
         (1 := bolt_device_update_from_udev example_env (objs example_attached 1) example_dock_node)\<rparr>) c = Some 1 \<and>
        \<not> bolt_status_is_authorized (dev_status (objs (example_attached\<lparr>objs := (objs example_attached)
         (1 := bolt_device_update_from_udev example_env (objs example_attached 1) example_dock_node)\<rparr>) c)) \<and>
        dev_policy (objs (example_attached\<lparr>objs := (objs example_attached)
         (1 := bolt_device_update_from_udev example_env (objs example_attached 1) example_dock_node)\<rparr>) c) = BOLT_POLICY_AUTO \<and>
        0 < dev_store (objs (example_attached\<lparr>objs := (objs example_attached)
         (1 := bolt_device_update_from_udev example_env (objs example_attached 1) example_dock_node)\<rparr>) c)"
    by blast
  from n2 mem chi have in2: "2 \<in> set new" by blast
  from n2 cam have out3: "3 \<notin> set new" by blast
  from n1 in2 out3
  have exa: "\<exists>new. idle (handle_udev_device_changed example_env example_attached 1 example_dock_node) =
      idle example_attached @ new \<and> 2 \<in> set new \<and> 3 \<notin> set new"
    by blast
  from q naut
  have qui: "idle (handle_udev_device_changed example_env example_attached 1 example_dock_unchanged) =
     idle example_attached"
    by blast
  from t obtain new' where
    r1: "idle (handle_uevent_udev example_env example_attached (Some example_dock_remove)) =
      idle example_attached @ new'"
    and r2: "\<forall>c\<in>set new'. \<exists>device. Some example_dock_remove = Some device \<and>
          (u_action device = Some ''add'' \<or> u_action device = Some ''change'')"
    by blast
  from r2 rem have "new' = []" by (cases new') auto
  with r1
  have disp: "idle (handle_uevent_udev example_env example_attached (Some example_dock_remove)) =
     idle example_attached"
    by simp
  from conn par una att idl aut mem que exa naut qui rem disp show ?thesis by blast
qed

text \<open>
  The claim as it was stated fails on the sample table: the stored disk is plugged in
  below a controller that the table does not hold, and its authorization is queued.
\<close>

theorem attached_authorization_counterexample:
  "dev_status (example_objs 2) = BOLT_STATUS_DISCONNECTED \<and>
   bolt_manager_get_device_by_syspath example_mgr ''/sys/devices/domain1/1-0'' = None \<and>
   idle example_mgr = [] \<and>
   idle (handle_uevent_udev example_env example_mgr
      (Some (example_node ''add'' ''1-1'' ''/sys/devices/domain1/1-0/1-1'' ''uid-disk'' ''0''))) = [2] \<and>
   idle (handle_udev_device_attached example_env example_mgr 2
      (example_node ''add'' ''1-1'' ''/sys/devices/domain1/1-0/1-1'' ''uid-disk'' ''0'')) = [2]"
  by code_simp

lemma ptr_array_index_of_None: "ptr_array_index_of arr d = None \<longleftrightarrow> d \<notin> set arr"
  by (induction arr) auto

lemma ptr_array_index_of_Some:
  "ptr_array_index_of arr d = Some i \<Longrightarrow> i < length arr \<and> arr ! i = d"
  by (induction arr arbitrary: i) (auto split: if_splits)

lemma remove_fast_set:
  assumes "distinct arr" "d \<in> set arr"
  shows "set (g_ptr_array_remove_fast arr d) = set arr - {d}"
proof -
  from assms(2) obtain i where i: "ptr_array_index_of arr d = Some i"
    using ptr_array_index_of_None [of arr d] by (cases "ptr_array_index_of arr d") auto
  then have il: "i < length arr" and ai: "arr ! i = d"
    using ptr_array_index_of_Some by blast+
  from il have ne: "arr \<noteq> []" by auto
  then obtain xs l where arr: "arr = xs @ [l]" by (metis rev_exhaust)
  show ?thesis
  proof (cases "i = length xs")
    case True
    then have "d = l" using ai arr by simp
    then show ?thesis using i arr True assms(1)
      by (auto simp: g_ptr_array_remove_fast_def)
  next
    case False
    then have ix: "i < length xs" using il arr by simp
    then have dx: "xs ! i = d" using ai arr by (simp add: nth_append)
    have "butlast (arr[i := last arr]) = xs[i := l]"
      using arr ix by (simp add: list_update_append)
    moreover have "set (xs[i := l]) = insert l (set xs - {d})"
      using ix dx assms(1) arr
      by (simp add: set_update_distinct)
    ultimately show ?thesis using i arr False ix assms(1) dx
      by (auto simp: g_ptr_array_remove_fast_def)
  qed
qed

lemma remove_fast_absent: "d \<notin> set arr \<Longrightarrow> g_ptr_array_remove_fast arr d = arr"
  using ptr_array_index_of_None [of arr d] by (simp add: g_ptr_array_remove_fast_def)

text \<open>
  Claim C2, as amended: a remove event whose sysname starts with "domain" or whose
  syspath matches no table device changes nothing. Otherwise, for the first table
  device with that syspath: a stored device stays in the table, becomes Disconnected,
  keeps its object path, and no signal is emitted; an unstored device is taken out of the
  table (a table without repeated pointers then holds the other devices only), and if
  it has an object path DeviceRemoved is emitted with that path and the path is
  cleared, while a device without object path is dropped without any signal.
\<close>

theorem remove_event:
  assumes act: "u_action device = Some ''remove''" and sp: "u_syspath device = Some path"
  shows
   "((case u_sysname device of None \<Rightarrow> False | Some name \<Rightarrow> prefix ''domain'' name) \<longrightarrow>
       handle_uevent_udev E mgr (Some device) = mgr) \<and>
    (bolt_manager_get_device_by_syspath mgr path = None \<longrightarrow>
       handle_uevent_udev E mgr (Some device) = mgr) \<and>
    (\<forall>dev. \<not> (case u_sysname device of None \<Rightarrow> False | Some name \<Rightarrow> prefix ''domain'' name) \<and>
            bolt_manager_get_device_by_syspath mgr path = Some dev \<longrightarrow>
       (let mgr' = handle_uevent_udev E mgr (Some device) in
        dev \<in> set (devices mgr) \<and>
        (0 < dev_store (objs mgr dev) \<longrightarrow>
           devices mgr' = devices mgr \<and>
           dev_status (objs mgr' dev) = BOLT_STATUS_DISCONNECTED \<and>
           dev_opath (objs mgr' dev) = dev_opath (objs mgr dev) \<and>
           emitted mgr' = emitted mgr) \<and>
        (dev_store (objs mgr dev) = 0 \<longrightarrow>
           devices mgr' = g_ptr_array_remove_fast (devices mgr) dev \<and>
           (distinct (devices mgr) \<longrightarrow> set (devices mgr') = set (devices mgr) - {dev}) \<and>
           (case dev_opath (objs mgr dev) of
              Some opath \<Rightarrow> emitted mgr' = emitted mgr @ [DeviceRemoved opath] \<and>
                            dev_opath (objs mgr' dev) = None
            | None \<Rightarrow> emitted mgr' = emitted mgr \<and> objs mgr' = objs mgr))))"
proof (intro conjI impI allI)
  assume "case u_sysname device of None \<Rightarrow> False | Some name \<Rightarrow> prefix ''domain'' name"
  then show "handle_uevent_udev E mgr (Some device) = mgr"
    using act sp by (simp add: handle_uevent_udev_def)
next
  assume "bolt_manager_get_device_by_syspath mgr path = None"
  then show "handle_uevent_udev E mgr (Some device) = mgr"
    using act sp by (simp add: handle_uevent_udev_def)
next
  fix dev
  assume h: "\<not> (case u_sysname device of None \<Rightarrow> False | Some name \<Rightarrow> prefix ''domain'' name) \<and>
            bolt_manager_get_device_by_syspath mgr path = Some dev"
  then have mem: "dev \<in> set (devices mgr)"
    by (auto simp: bolt_manager_get_device_by_syspath_def dest: device_by_syspath_loop_Some)
  have ev: "handle_uevent_udev E mgr (Some device) =
      (if 0 < dev_store (objs mgr dev) then handle_udev_device_detached mgr dev
       else hanlde_udev_device_removed mgr dev)"
    using act sp h by (simp add: handle_uevent_udev_def)
  show "let mgr' = handle_uevent_udev E mgr (Some device) in
        dev \<in> set (devices mgr) \<and>
        (0 < dev_store (objs mgr dev) \<longrightarrow>
           devices mgr' = devices mgr \<and>
           dev_status (objs mgr' dev) = BOLT_STATUS_DISCONNECTED \<and>
           dev_opath (objs mgr' dev) = dev_opath (objs mgr dev) \<and>
           emitted mgr' = emitted mgr) \<and>
        (dev_store (objs mgr dev) = 0 \<longrightarrow>
           devices mgr' = g_ptr_array_remove_fast (devices mgr) dev \<and>
           (distinct (devices mgr) \<longrightarrow> set (devices mgr') = set (devices mgr) - {dev}) \<and>
           (case dev_opath (objs mgr dev) of
              Some opath \<Rightarrow> emitted mgr' = emitted mgr @ [DeviceRemoved opath] \<and>
                            dev_opath (objs mgr' dev) = None
            | None \<Rightarrow> emitted mgr' = emitted mgr \<and> objs mgr' = objs mgr))"
    unfolding Let_def ev using mem
    by (auto simp: handle_udev_device_detached_def hanlde_udev_device_removed_def
        bolt_device_disconnected_def bolt_device_unexport_def Let_def remove_fast_set
        split: option.splits)
qed

theorem remove_event_witness:
  "u_action example_dock_remove = Some ''remove'' \<and>
   u_syspath example_dock_remove = Some ''/sys/devices/domain0/0-0/0-1'' \<and>
   \<not> (case u_sysname example_dock_remove of None \<Rightarrow> False | Some name \<Rightarrow> prefix ''domain'' name) \<and>
   bolt_manager_get_device_by_syspath example_mgr ''/sys/devices/domain0/0-0/0-1'' = Some 1 \<and>
   0 < dev_store (objs example_mgr 1) \<and>
   devices (handle_uevent_udev example_env example_mgr (Some example_dock_remove)) = devices example_mgr \<and>
   dev_status (objs (handle_uevent_udev example_env example_mgr (Some example_dock_remove)) 1) =
     BOLT_STATUS_DISCONNECTED \<and>
   emitted (handle_uevent_udev example_env example_mgr (Some example_dock_remove)) = emitted example_mgr \<and>
   u_action example_host_remove = Some ''remove'' \<and>
   u_syspath example_host_remove = Some ''/sys/devices/domain0/0-0'' \<and>
   \<not> (case u_sysname example_host_remove of None \<Rightarrow> False | Some name \<Rightarrow> prefix ''domain'' name) \<and>
   bolt_manager_get_device_by_syspath example_mgr ''/sys/devices/domain0/0-0'' = Some 0 \<and>
   dev_store (objs example_mgr 0) = 0 \<and>
   distinct (devices example_mgr) \<and>
   dev_opath (objs example_mgr 0) = Some ''/org/freedesktop/Bolt/devices/host'' \<and>
   set (devices (handle_uevent_udev example_env example_mgr (Some example_host_remove))) =
     set (devices example_mgr) - {0} \<and>
   emitted (handle_uevent_udev example_env example_mgr (Some example_host_remove)) =
     emitted example_mgr @ [DeviceRemoved ''/org/freedesktop/Bolt/devices/host'']"
proof -
  have a1: "u_action example_dock_remove = Some ''remove''"
    and s1: "u_syspath example_dock_remove = Some ''/sys/devices/domain0/0-0/0-1''"
    and n1: "\<not> (case u_sysname example_dock_remove of None \<Rightarrow> False | Some name \<Rightarrow> prefix ''domain'' name)"
    and g1: "bolt_manager_get_device_by_syspath example_mgr ''/sys/devices/domain0/0-0/0-1'' = Some 1"
    and st1: "0 < dev_store (objs example_mgr 1)"
    by code_simp+
  have a0: "u_action example_host_remove = Some ''remove''"
    and s0: "u_syspath example_host_remove = Some ''/sys/devices/domain0/0-0''"
    and n0: "\<not> (case u_sysname example_host_remove of None \<Rightarrow> False | Some name \<Rightarrow> prefix ''domain'' name)"
    and g0: "bolt_manager_get_device_by_syspath example_mgr ''/sys/devices/domain0/0-0'' = Some 0"
    and st0: "dev_store (objs example_mgr 0) = 0"
    and di: "distinct (devices example_mgr)"
    and op0: "dev_opath (objs example_mgr 0) = Some ''/org/freedesktop/Bolt/devices/host''"
    by code_simp+
  note t1 = remove_event [OF a1 s1, of example_env example_mgr, unfolded Let_def,
      THEN conjunct2, THEN conjunct2, rule_format, of 1]
  note t0 = remove_event [OF a0 s0, of example_env example_mgr, unfolded Let_def,
      THEN conjunct2, THEN conjunct2, rule_format, of 0]
  from t1 n1 g1 st1
  have r1: "devices (handle_uevent_udev example_env example_mgr (Some example_dock_remove)) = devices example_mgr \<and>
   dev_status (objs (handle_uevent_udev example_env example_mgr (Some example_dock_remove)) 1) =
     BOLT_STATUS_DISCONNECTED \<and>
   emitted (handle_uevent_udev example_env example_mgr (Some example_dock_remove)) = emitted example_mgr"
    by blast
  from t0 n0 g0 st0
  have x: "(distinct (devices example_mgr) \<longrightarrow>
       set (devices (handle_uevent_udev example_env example_mgr (Some example_host_remove))) =
         set (devices example_mgr) - {0}) \<and>
     (case dev_opath (objs example_mgr 0) of
        Some opath \<Rightarrow>
          emitted (handle_uevent_udev example_env example_mgr (Some example_host_remove)) =
            emitted example_mgr @ [DeviceRemoved opath] \<and>
          dev_opath (objs (handle_uevent_udev example_env example_mgr (Some example_host_remove)) 0) = None
      | None \<Rightarrow>
          emitted (handle_uevent_udev example_env example_mgr (Some example_host_remove)) =
            emitted example_mgr \<and>
          objs (handle_uevent_udev example_env example_mgr (Some example_host_remove)) =
            objs example_mgr)"
    by blast
  from x di
  have r0a: "set (devices (handle_uevent_udev example_env example_mgr (Some example_host_remove))) =
     set (devices example_mgr) - {0}"
    by blast
  from x [THEN conjunct2]
  have r0b: "emitted (handle_uevent_udev example_env example_mgr (Some example_host_remove)) =
     emitted example_mgr @ [DeviceRemoved ''/org/freedesktop/Bolt/devices/host'']"
    unfolding op0 by simp
  note r0 = conjI [OF r0a r0b]
  from a1 s1 n1 g1 st1 r1 a0 s0 n0 g0 st0 di op0 r0 show ?thesis by blast
qed

text \<open>
  The claim as it was stated fails for a device that was added while the manager had
  no bus connection: it is unstored and has no object path, and its removal emits no
  signal.
\<close>

theorem remove_event_counterexample:
  "devices (handle_uevent_udev example_env example_start
      (Some (example_node ''add'' ''0-3'' ''/sys/devices/domain0/0-0/0-3'' ''uid-cam'' ''0''))) = [0] \<and>
   dev_store (objs (handle_uevent_udev example_env example_start
      (Some (example_node ''add'' ''0-3'' ''/sys/devices/domain0/0-0/0-3'' ''uid-cam'' ''0''))) 0) = 0 \<and>
   bolt_manager_get_device_by_syspath (handle_uevent_udev example_env example_start
      (Some (example_node ''add'' ''0-3'' ''/sys/devices/domain0/0-0/0-3'' ''uid-cam'' ''0'')))
      ''/sys/devices/domain0/0-0/0-3'' = Some 0 \<and>
   devices (handle_uevent_udev example_env
      (handle_uevent_udev example_env example_start
         (Some (example_node ''add'' ''0-3'' ''/sys/devices/domain0/0-0/0-3'' ''uid-cam'' ''0'')))
      (Some (example_node ''remove'' ''0-3'' ''/sys/devices/domain0/0-0/0-3'' ''uid-cam'' ''0''))) = [] \<and>
   emitted (handle_uevent_udev example_env
      (handle_uevent_udev example_env example_start
         (Some (example_node ''add'' ''0-3'' ''/sys/devices/domain0/0-0/0-3'' ''uid-cam'' ''0'')))
      (Some (example_node ''remove'' ''0-3'' ''/sys/devices/domain0/0-0/0-3'' ''uid-cam'' ''0''))) = []"
  by code_simp

section \<open>Start-up\<close>

lemma upt_from_Suc: "[n ..< Suc (n + k)] = n # [Suc n ..< Suc (n + k)]"
  by (simp add: upt_conv_Cons)

lemma load_devices_loop_fields:
  "warnings (load_devices_loop E ids mgr) =
     warnings mgr @ [WarnLoadFailed u. u \<leftarrow> ids, isl (store_get_device E u)] \<and>
   nalloc (load_devices_loop E ids mgr) =
     nalloc mgr + length [u \<leftarrow> ids. \<not> isl (store_get_device E u)] \<and>
   devices (load_devices_loop E ids mgr) =
     devices mgr @ [nalloc mgr ..< nalloc mgr + length [u \<leftarrow> ids. \<not> isl (store_get_device E u)]] \<and>
   idle (load_devices_loop E ids mgr) = idle mgr \<and>
   emitted (load_devices_loop E ids mgr) = emitted mgr \<and>
   (\<forall>p < nalloc mgr. objs (load_devices_loop E ids mgr) p = objs mgr p)"
proof (induction ids arbitrary: mgr)
  case Nil
  then show ?case by simp
next
  case (Cons u ids)
  show ?case
  proof (cases "store_get_device E u")
    case (Inl err)
    then show ?thesis using Cons [of "mgr\<lparr>warnings := warnings mgr @ [WarnLoadFailed u]\<rparr>"] by simp
  next
    case (Inr d)
    then show ?thesis using Cons [of "add_new_device mgr d"]
      by (simp add: add_new_device_def upt_from_Suc del: upt_Suc)
  qed
qed

lemma load_devices_loop_objs:
  "map (\<lambda>p. Inr (objs (load_devices_loop E ids mgr) p))
       [nalloc mgr ..< nalloc mgr + length [u \<leftarrow> ids. \<not> isl (store_get_device E u)]] =
   map (store_get_device E) [u \<leftarrow> ids. \<not> isl (store_get_device E u)]"
proof (induction ids arbitrary: mgr)
  case Nil
  then show ?case by simp
next
  case (Cons u ids)
  show ?case
  proof (cases "store_get_device E u")
    case (Inl err)
    then show ?thesis using Cons [of "mgr\<lparr>warnings := warnings mgr @ [WarnLoadFailed u]\<rparr>"] by simp
  next
    case (Inr d)
    have "objs (load_devices_loop E ids (add_new_device mgr d)) (nalloc mgr) = d"
      using load_devices_loop_fields [of E ids "add_new_device mgr d"]
      by (simp add: add_new_device_def)
    then show ?thesis using Inr Cons [of "add_new_device mgr d"]
      by (simp add: upt_from_Suc del: upt_Suc) (simp add: add_new_device_def)
  qed
qed

lemma added_prefix:
  "prefix (devices m) (devices (handle_udev_device_added E m udev)) \<and>
   prefix (warnings m) (warnings (handle_udev_device_added E m udev))"
  by (simp add: handle_udev_device_added_def add_new_device_def Let_def
      split: sum.splits option.splits)

lemma attached_prefix:
  "prefix (devices m) (devices (handle_udev_device_attached E m dev udev)) \<and>
   prefix (warnings m) (warnings (handle_udev_device_attached E m dev udev))"
  by (simp add: handle_udev_device_attached_def maybe_authorize_device_eq Let_def
      split: option.splits)

lemma enumerate_loop_ok:
  "\<forall>n\<in>set l. case n of None \<Rightarrow> True
      | Some udevice \<Rightarrow> udev_device_get_sysattr_value udevice ''unique_id'' \<noteq> None \<Longrightarrow>
   \<exists>final. enumerate_loop E l m = Inr final \<and>
     prefix (devices m) (devices final) \<and> prefix (warnings m) (warnings final)"
proof (induction l arbitrary: m)
  case Nil
  then show ?case by simp
next
  case (Cons n l)
  show ?case
  proof (cases n)
    case None
    then show ?thesis using Cons by simp
  next
    case (Some udevice)
    then obtain u where u: "udev_device_get_sysattr_value udevice ''unique_id'' = Some u"
      using Cons.prems by auto
    show ?thesis
    proof (cases "bolt_manager_get_device_by_uid m u")
      case None
      from Cons.IH [of "handle_udev_device_added E m udevice"] Cons.prems
      obtain final where "enumerate_loop E l (handle_udev_device_added E m udevice) = Inr final"
        "prefix (devices (handle_udev_device_added E m udevice)) (devices final)"
        "prefix (warnings (handle_udev_device_added E m udevice)) (warnings final)"
        by auto
      then show ?thesis using Some u None added_prefix [of m E udevice]
        by (auto intro: prefix_order.trans)
    next
      case (Some dev)
      from Cons.IH [of "handle_udev_device_attached E m dev udevice"] Cons.prems
      obtain final where "enumerate_loop E l (handle_udev_device_attached E m dev udevice) = Inr final"
        "prefix (devices (handle_udev_device_attached E m dev udevice)) (devices final)"
        "prefix (warnings (handle_udev_device_attached E m dev udevice)) (warnings final)"
        by auto
      then show ?thesis using \<open>n = Some udevice\<close> u Some attached_prefix [of m E dev udevice]
        by (auto intro: prefix_order.trans)
    qed
  qed
qed

text \<open>
  Claim C4: during start-up a failure to list the uids of the store makes
  \<^verbatim>\<open>bolt_manager_initialize\<close> fail with that error. A record that cannot be
  loaded costs a warning for its uid and is skipped: the loop goes on, the table
  receives exactly the records that could be loaded, in the order of the list, and the
  outcome of the initialization is that of the enumeration that follows, which succeeds
  whenever every enumerated node has a unique id.
\<close>

theorem initialize_store_failures:
  "(store_list_uids E = Inl err \<longrightarrow> (\<exists>f. bolt_manager_initialize E mgr = Inl f)) \<and>
   (udev_new E \<and> setup_monitor E ''kernel'' = Inr () \<and> setup_monitor E ''udev'' = Inr () \<longrightarrow>
      (store_list_uids E = Inl err \<longrightarrow> bolt_manager_initialize E mgr = Inl (Error err)) \<and>
      (store_list_uids E = Inr ids \<longrightarrow>
         (let loaded = load_devices_loop E ids mgr;
              good = [u \<leftarrow> ids. \<not> isl (store_get_device E u)];
              fresh = [nalloc mgr ..< nalloc mgr + length good]
          in bolt_manager_initialize E mgr = enumerate_loop E (udev_enumerate E) loaded \<and>
             warnings loaded =
               warnings mgr @ [WarnLoadFailed u. u \<leftarrow> ids, isl (store_get_device E u)] \<and>
             devices loaded = devices mgr @ fresh \<and>
             map (\<lambda>p. Inr (objs loaded p)) fresh = map (store_get_device E) good \<and>
             ((\<forall>n\<in>set (udev_enumerate E). case n of None \<Rightarrow> True
                 | Some udevice \<Rightarrow> udev_device_get_sysattr_value udevice ''unique_id'' \<noteq> None) \<longrightarrow>
              (\<exists>final. bolt_manager_initialize E mgr = Inr final \<and>
                  prefix (devices loaded) (devices final) \<and>
                  prefix (warnings loaded) (warnings final))))))"
proof (intro conjI impI)
  assume "store_list_uids E = Inl err"
  then show "\<exists>f. bolt_manager_initialize E mgr = Inl f"
    by (simp add: bolt_manager_initialize_def split: sum.splits)
next
  assume "udev_new E \<and> setup_monitor E ''kernel'' = Inr () \<and> setup_monitor E ''udev'' = Inr ()"
    and "store_list_uids E = Inl err"
  then show "bolt_manager_initialize E mgr = Inl (Error err)"
    by (simp add: bolt_manager_initialize_def)
next
  assume ok: "udev_new E \<and> setup_monitor E ''kernel'' = Inr () \<and> setup_monitor E ''udev'' = Inr ()"
    and ids: "store_list_uids E = Inr ids"
  then have init: "bolt_manager_initialize E mgr =
      enumerate_loop E (udev_enumerate E) (load_devices_loop E ids mgr)"
    by (simp add: bolt_manager_initialize_def)
  show "let loaded = load_devices_loop E ids mgr;
              good = [u \<leftarrow> ids. \<not> isl (store_get_device E u)];
              fresh = [nalloc mgr ..< nalloc mgr + length good]
          in bolt_manager_initialize E mgr = enumerate_loop E (udev_enumerate E) loaded \<and>
             warnings loaded =
               warnings mgr @ [WarnLoadFailed u. u \<leftarrow> ids, isl (store_get_device E u)] \<and>
             devices loaded = devices mgr @ fresh \<and>
             map (\<lambda>p. Inr (objs loaded p)) fresh = map (store_get_device E) good \<and>
             ((\<forall>n\<in>set (udev_enumerate E). case n of None \<Rightarrow> True
                 | Some udevice \<Rightarrow> udev_device_get_sysattr_value udevice ''unique_id'' \<noteq> None) \<longrightarrow>
              (\<exists>final. bolt_manager_initialize E mgr = Inr final \<and>
                  prefix (devices loaded) (devices final) \<and>
                  prefix (warnings loaded) (warnings final)))"
    unfolding Let_def init
    using load_devices_loop_fields [of E ids mgr] load_devices_loop_objs [of E ids mgr]
      enumerate_loop_ok [of "udev_enumerate E" E "load_devices_loop E ids mgr"]
    by blast
qed

theorem initialize_store_failures_witness:
  "udev_new example_env \<and> setup_monitor example_env ''kernel'' = Inr () \<and>
   setup_monitor example_env ''udev'' = Inr () \<and>
   store_list_uids example_env = Inr [''uid-dock'', ''uid-bad'', ''uid-disk''] \<and>
   warnings (load_devices_loop example_env [''uid-dock'', ''uid-bad'', ''uid-disk''] example_start) =
     [WarnLoadFailed ''uid-bad''] \<and>
   devices (load_devices_loop example_env [''uid-dock'', ''uid-bad'', ''uid-disk''] example_start) =
     [0, 1] \<and>
   (\<exists>final. bolt_manager_initialize example_env example_start = Inr final \<and>
      prefix [0, 1] (devices final) \<and> prefix [WarnLoadFailed ''uid-bad''] (warnings final)) \<and>
   udev_new example_env_nolist \<and> setup_monitor example_env_nolist ''kernel'' = Inr () \<and>
   setup_monitor example_env_nolist ''udev'' = Inr () \<and>
   store_list_uids example_env_nolist = Inl BOLT_ERROR_STORE \<and>
   bolt_manager_initialize example_env_nolist example_start = Inl (Error BOLT_ERROR_STORE)"
proof -
  have ok: "udev_new example_env \<and> setup_monitor example_env ''kernel'' = Inr () \<and>
      setup_monitor example_env ''udev'' = Inr ()"
    by code_simp
  have ids: "store_list_uids example_env = Inr [''uid-dock'', ''uid-bad'', ''uid-disk'']"
    by code_simp
  have uid: "\<forall>n\<in>set (udev_enumerate example_env). case n of None \<Rightarrow> True
      | Some udevice \<Rightarrow> udev_device_get_sysattr_value udevice ''unique_id'' \<noteq> None"
    by code_simp
  have w: "warnings example_start @
      [WarnLoadFailed u. u \<leftarrow> [''uid-dock'', ''uid-bad'', ''uid-disk''],
         isl (store_get_device example_env u)] = [WarnLoadFailed ''uid-bad'']"
    by code_simp
  have d: "devices example_start @
      [nalloc example_start ..< nalloc example_start +
         length [u \<leftarrow> [''uid-dock'', ''uid-bad'', ''uid-disk'']. \<not> isl (store_get_device example_env u)]] =
      [0, 1]"
    by code_simp
  note t = initialize_store_failures [of example_env BOLT_ERROR_STORE example_start
      "[''uid-dock'', ''uid-bad'', ''uid-disk'']", unfolded Let_def, THEN conjunct2, rule_format,
      OF ok, THEN conjunct2, rule_format, OF ids]
  from t have lw: "warnings (load_devices_loop example_env [''uid-dock'', ''uid-bad'', ''uid-disk''] example_start) =
     [WarnLoadFailed ''uid-bad'']"
    unfolding w by blast
  from t have ld: "devices (load_devices_loop example_env [''uid-dock'', ''uid-bad'', ''uid-disk''] example_start) =
     [0, 1]"
    unfolding d by blast
  from t uid have "\<exists>final. bolt_manager_initialize example_env example_start = Inr final \<and>
      prefix (devices (load_devices_loop example_env [''uid-dock'', ''uid-bad'', ''uid-disk''] example_start)) (devices final) \<and>
      prefix (warnings (load_devices_loop example_env [''uid-dock'', ''uid-bad'', ''uid-disk''] example_start)) (warnings final)"
    by blast
  then have fin: "\<exists>final. bolt_manager_initialize example_env example_start = Inr final \<and>
      prefix [0, 1] (devices final) \<and> prefix [WarnLoadFailed ''uid-bad''] (warnings final)"
    unfolding lw ld .
  have ok': "udev_new example_env_nolist \<and> setup_monitor example_env_nolist ''kernel'' = Inr () \<and>
      setup_monitor example_env_nolist ''udev'' = Inr ()"
    by code_simp
  have nol: "store_list_uids example_env_nolist = Inl BOLT_ERROR_STORE"
    by code_simp
  from initialize_store_failures [of example_env_nolist BOLT_ERROR_STORE example_start "[]",
      THEN conjunct2, rule_format, OF ok', THEN conjunct1, rule_format, OF nol]
  have fail: "bolt_manager_initialize example_env_nolist example_start = Inl (Error BOLT_ERROR_STORE)" .
  from ok ids lw ld fin ok' nol fail show ?thesis by blast
qed

section \<open>The info snapshot\<close>

text \<open>
  Claim C7, as amended: whenever the \<^verbatim>\<open>authorized\<close> attribute cannot be read
  as an integer, because the attribute cannot be read or because its string does not
  parse, and the failure leaves a positive errno, the info snapshot fails with an error
  of the \<^verbatim>\<open>G_IO_ERROR\<close> domain whose code is derived from that errno. It is
  not an error of kind UdevError.
\<close>

theorem info_for_device_authorized_unreadable:
  assumes "u_sysattr udev ''authorized'' = Inl e \<or>
           (\<exists>str. u_sysattr udev ''authorized'' = Inr str \<and> parse str errno = (None, e))"
    and "0 < e"
  shows "bolt_sysfs_info_for_device parse udev full info errno = Inl (G_IO_ERROR e)"
  using assms
  by (auto simp: bolt_sysfs_info_for_device_def sysfs_get_sysattr_value_as_int_def Let_def)

theorem info_for_device_authorized_unreadable_witness:
  "u_sysattr example_bare_node ''authorized'' = Inl ENOENT \<and> 0 < ENOENT \<and>
   bolt_sysfs_info_for_device example_parse example_bare_node False example_info 0 =
     Inl (G_IO_ERROR ENOENT) \<and>
   u_sysattr example_garbled_node ''authorized'' = Inr ''x'' \<and>
   example_parse ''x'' 0 = (None, 22) \<and>
   bolt_sysfs_info_for_device example_parse example_garbled_node True example_info 0 =
     Inl (G_IO_ERROR 22)"
proof -
  have a: "u_sysattr example_bare_node ''authorized'' = Inl ENOENT" by code_simp
  have p: "0 < ENOENT" by code_simp
  have g: "u_sysattr example_garbled_node ''authorized'' = Inr ''x''" by code_simp
  have x: "example_parse ''x'' 0 = (None, 22)" by code_simp
  have t: "0 < (22::int)" by simp
  from info_for_device_authorized_unreadable [where udev = example_garbled_node and e = 22
      and parse = example_parse and errno = 0 and full = True and info = example_info] g x t
  have "bolt_sysfs_info_for_device example_parse example_garbled_node True example_info 0 =
     Inl (G_IO_ERROR 22)"
    by blast
  with info_for_device_authorized_unreadable [OF disjI1 [OF a] p] a p g x
  show ?thesis by blast
qed

text \<open>
  The claim as it was stated fails on a node without the attribute: the error is the
  \<^verbatim>\<open>G_IO_ERROR\<close> for ENOENT.
\<close>

theorem info_for_device_authorized_unreadable_counterexample:
  "u_sysattr example_bare_node ''authorized'' = Inl ENOENT \<and>
   bolt_sysfs_info_for_device example_parse example_bare_node True example_info 0 =
     Inl (G_IO_ERROR ENOENT) \<and>
   bolt_sysfs_info_for_device example_parse example_bare_node True example_info 0 \<noteq>
     Inl BOLT_ERROR_UDEV"
  by code_simp

lemma info_for_device_Inr:
  assumes "bolt_sysfs_info_for_device parse udev full info errno = Inr r"
  shows "info_keysize r =
           fst (sysfs_get_sysattr_size udev ''key''
             (snd (sysfs_get_sysattr_value_as_int parse udev ''authorized'' errno))) \<and>
         info_boot r =
           fst (sysfs_get_sysattr_value_as_int parse udev ''boot''
             (snd (sysfs_get_sysattr_size udev ''key''
               (snd (sysfs_get_sysattr_value_as_int parse udev ''authorized'' errno))))) \<and>
         info_ctim r = (if full then bolt_sysfs_device_get_time udev BOLT_ST_CTIME else - 1)"
  using assms
  by (auto simp: bolt_sysfs_info_for_device_def Let_def
      split: prod.splits if_splits option.splits)

text \<open>
  Claim C8, as amended: in every info snapshot that is returned successfully, an absent
  \<^verbatim>\<open>key\<close> attribute leaves the negated errno of the failed read in keysize,
  an unreadable \<^verbatim>\<open>boot\<close> leaves the negated errno in boot, and ctime is -1
  when the full snapshot was not asked for and 0 when it was asked for but the node has
  no syspath or lstat fails.
\<close>

theorem info_for_device_unknown_fields:
  assumes "bolt_sysfs_info_for_device parse udev full info errno = Inr r"
  shows "(\<forall>e. u_sysattr udev ''key'' = Inl e \<longrightarrow> info_keysize r = - e) \<and>
         (\<forall>e. u_sysattr udev ''boot'' = Inl e \<longrightarrow> info_boot r = - e) \<and>
         (\<forall>str e. u_sysattr udev ''boot'' = Inr str \<and> (\<forall>en. parse str en = (None, e)) \<longrightarrow>
             info_boot r = - e) \<and>
         (\<not> full \<longrightarrow> info_ctim r = - 1) \<and>
         (full \<and> (u_syspath udev = None \<or> u_lstat udev = None) \<longrightarrow> info_ctim r = 0)"
proof -
  note i = info_for_device_Inr [OF assms]
  obtain bt e3 where
    b: "sysfs_get_sysattr_value_as_int parse udev ''boot''
          (snd (sysfs_get_sysattr_size udev ''key''
            (snd (sysfs_get_sysattr_value_as_int parse udev ''authorized'' errno)))) = (bt, e3)"
    by (cases "sysfs_get_sysattr_value_as_int parse udev ''boot''
          (snd (sysfs_get_sysattr_size udev ''key''
            (snd (sysfs_get_sysattr_value_as_int parse udev ''authorized'' errno))))")
  have k: "info_keysize r =
      fst (sysfs_get_sysattr_size udev ''key''
        (snd (sysfs_get_sysattr_value_as_int parse udev ''authorized'' errno)))"
    and bt: "info_boot r = bt"
    and c: "info_ctim r = (if full then bolt_sysfs_device_get_time udev BOLT_ST_CTIME else - 1)"
    using i b by simp_all
  have 1: "\<forall>e. u_sysattr udev ''key'' = Inl e \<longrightarrow> info_keysize r = - e"
    using k by (simp add: sysfs_get_sysattr_size_def)
  have 2: "\<forall>e. u_sysattr udev ''boot'' = Inl e \<longrightarrow> info_boot r = - e"
    using b bt by (auto simp: sysfs_get_sysattr_value_as_int_def)
  have 3: "\<forall>str e. u_sysattr udev ''boot'' = Inr str \<and> (\<forall>en. parse str en = (None, e)) \<longrightarrow>
             info_boot r = - e"
    using b bt by (auto simp: sysfs_get_sysattr_value_as_int_def)
  have 4: "\<not> full \<longrightarrow> info_ctim r = - 1" using c by simp
  have 5: "full \<and> (u_syspath udev = None \<or> u_lstat udev = None) \<longrightarrow> info_ctim r = 0"
    using c by (auto simp: bolt_sysfs_device_get_time_def split: option.splits)
  from 1 2 3 4 5 show ?thesis by blast
qed

theorem info_for_device_unknown_fields_witness:
  "\<not> isl (bolt_sysfs_info_for_device example_parse example_dock_node True example_info 0) \<and>
   u_sysattr example_dock_node ''key'' = Inl 2 \<and>
   u_sysattr example_dock_node ''boot'' = Inl 2 \<and>
   u_lstat example_dock_node = None \<and>
   info_keysize (projr (bolt_sysfs_info_for_device example_parse example_dock_node True example_info 0)) = - 2 \<and>
   info_boot (projr (bolt_sysfs_info_for_device example_parse example_dock_node True example_info 0)) = - 2 \<and>
   info_ctim (projr (bolt_sysfs_info_for_device example_parse example_dock_node True example_info 0)) = 0"
proof -
  have r: "\<not> isl (bolt_sysfs_info_for_device example_parse example_dock_node True example_info 0)"
    by code_simp
  then have eq: "bolt_sysfs_info_for_device example_parse example_dock_node True example_info 0 =
      Inr (projr (bolt_sysfs_info_for_device example_parse example_dock_node True example_info 0))"
    by simp
  have k: "u_sysattr example_dock_node ''key'' = Inl 2"
    and b: "u_sysattr example_dock_node ''boot'' = Inl 2"
    and l: "u_lstat example_dock_node = None"
    by code_simp+
  from info_for_device_unknown_fields [OF eq] k b l r show ?thesis by simp
qed

text \<open>
  The claim as it was stated fails on a full snapshot of a node without
  \<^verbatim>\<open>key\<close> and \<^verbatim>\<open>boot\<close> whose lstat fails: keysize and boot are
  -ENOENT and ctime is 0.
\<close>

theorem info_for_device_unknown_fields_counterexample:
  "u_sysattr example_dock_node ''key'' = Inl 2 \<and>
   u_sysattr example_dock_node ''boot'' = Inl 2 \<and>
   u_lstat example_dock_node = None \<and>
   map_sum id (\<lambda>r. (info_keysize r, info_boot r, info_ctim r))
     (bolt_sysfs_info_for_device example_parse example_dock_node True example_info 0) =
     Inr (- 2, - 2, 0)"
  by code_simp

section \<open>The boot ACL\<close>

lemma strstr_char_None: "c \<notin> set s \<Longrightarrow> strstr s [c] = None"
  by (induction s) auto

lemma strstr_char_first: "c \<notin> set s \<Longrightarrow> strstr (s @ c # rest) [c] = Some (length s)"
  by (induction s) auto

lemma g_strjoinv_Cons2:
  "g_strjoinv sep (s # t # rest) = s @ sep @ g_strjoinv sep (t # rest)"
  by simp

lemma strsplit_loop_join:
  "\<forall>x\<in>set (s # rest). c \<notin> set x \<Longrightarrow> length (s # rest) \<le> n \<Longrightarrow>
     strsplit_loop n (g_strjoinv [c] (s # rest)) [c] = (butlast (s # rest), last (s # rest))"
proof (induction rest arbitrary: s n)
  case Nil
  then show ?case
    by (cases "(n, s, [c])" rule: strsplit_loop.cases) (auto simp: strstr_char_None)
next
  case (Cons t rest)
  from Cons.prems(2) obtain m where n: "n = Suc (Suc m)"
    by (cases n; cases "n - 1") auto
  have cs: "c \<notin> set s" using Cons.prems(1) by simp
  have ih: "strsplit_loop (Suc m) (g_strjoinv [c] (t # rest)) [c] =
      (butlast (t # rest), last (t # rest))"
    using Cons.IH [of t "Suc m"] Cons.prems n by simp
  have j: "g_strjoinv [c] (s # t # rest) = s @ c # g_strjoinv [c] (t # rest)"
    by simp
  show ?case
    unfolding n j using ih cs
    by (simp add: strstr_char_first del: g_strjoinv.simps)
qed

lemma g_strjoinv_empty: "g_strjoinv sep l = [] \<Longrightarrow> \<forall>s\<in>set l. s = []"
  by (cases l) auto

lemma g_strsplit_join:
  assumes "length l \<le> 1024" "\<exists>s\<in>set l. s \<noteq> []" "\<forall>s\<in>set l. CHR '','' \<notin> set s"
  shows "g_strsplit (g_strjoinv '','' l) '','' 1024 = l"
proof -
  from assms(2) obtain s rest where l: "l = s # rest" by (cases l) auto
  have ne: "g_strjoinv '','' l \<noteq> []" using assms(2) g_strjoinv_empty by blast
  have "strsplit_loop 1024 (g_strjoinv '','' l) '','' = (butlast l, last l)"
    using strsplit_loop_join [of s rest "CHR '',''" 1024] assms l by simp
  then show ?thesis using ne l by (simp add: g_strsplit_def)
qed

text \<open>
  Claim C9, as amended: for every list of strings with at most 1024 elements, at least
  one of them non-empty and none of them containing a comma, writing the list with the
  boot-ACL write and reading the attribute back with the boot-ACL read yields the very
  same list, and so the same list modulo trailing empty slots.
\<close>

theorem boot_acl_roundtrip:
  assumes "length l \<le> 1024" "\<exists>s\<in>set l. s \<noteq> []" "\<forall>s\<in>set l. CHR '','' \<notin> set s"
  shows "bolt_sysfs_read_boot_acl (bolt_sysfs_write_boot_acl device l) = Inr (Some l)"
proof -
  have "l \<noteq> []" using assms(2) by auto
  then show ?thesis using g_strsplit_join [OF assms]
    by (simp add: bolt_sysfs_read_boot_acl_def bolt_sysfs_write_boot_acl_def Let_def
        bolt_strv_isempty_def)
qed

theorem boot_acl_roundtrip_witness:
  "length [''uuid-1'', [], ''uuid-3'', []] \<le> 1024 \<and>
   ''uuid-1'' \<in> set [''uuid-1'', [], ''uuid-3'', []] \<and> ''uuid-1'' \<noteq> [] \<and>
   CHR '','' \<notin> set ''uuid-1'' \<and> CHR '','' \<notin> set ''uuid-3'' \<and>
   bolt_sysfs_read_boot_acl
     (bolt_sysfs_write_boot_acl (example_acl_node (Inl ENOENT)) [''uuid-1'', [], ''uuid-3'', []]) =
     Inr (Some [''uuid-1'', [], ''uuid-3'', []])"
proof -
  have a: "length [''uuid-1'', [], ''uuid-3'', []] \<le> 1024" by simp
  have b: "\<exists>s\<in>set [''uuid-1'', [], ''uuid-3'', []]. s \<noteq> []" by simp
  have c: "\<forall>s\<in>set [''uuid-1'', [], ''uuid-3'', []]. CHR '','' \<notin> set s" by simp
  from boot_acl_roundtrip [OF a b c, of "example_acl_node (Inl ENOENT)"] show ?thesis by simp
qed

text \<open>
  The claim as it was stated fails for a string that contains a comma: one element is
  written and two are read back.
\<close>

theorem boot_acl_roundtrip_counterexample:
  "length [''a,b''] \<le> 1024 \<and> ''a,b'' \<noteq> [] \<and>
   bolt_sysfs_read_boot_acl (bolt_sysfs_write_boot_acl (example_acl_node (Inl ENOENT)) [''a,b'']) =
     Inr (Some [''a'', ''b'']) \<and>
   strip_trailing_empty [''a'', ''b''] \<noteq> strip_trailing_empty [''a,b'']"
  by code_simp

lemma strsplit_loop_Nil: "strsplit_loop n [] '','' = ([], [])"
  by (cases "(n, []::string, '','')" rule: strsplit_loop.cases) auto

text \<open>
  Claim C10, as amended: the boot-ACL read succeeds with an absent list when the
  \<^verbatim>\<open>boot_acl\<close> attribute does not exist (the read fails with ENOENT) and when
  the attribute exists but is the empty string, which splits into no string at all. For
  every other value it succeeds with the split list, which is never empty. It fails
  only when the read fails with an errno other than ENOENT.
\<close>

theorem read_boot_acl_cases:
  "(u_sysattr udev ''boot_acl'' = Inl ENOENT \<longrightarrow> bolt_sysfs_read_boot_acl udev = Inr None) \<and>
   (\<forall>val. u_sysattr udev ''boot_acl'' = Inr val \<longrightarrow>
      bolt_sysfs_read_boot_acl udev =
        (if val = [] then Inr None else Inr (Some (g_strsplit val '','' 1024))) \<and>
      (g_strsplit val '','' 1024 = []) = (val = [])) \<and>
   (\<forall>err. bolt_sysfs_read_boot_acl udev = Inl err \<longrightarrow>
      (\<exists>e. u_sysattr udev ''boot_acl'' = Inl e \<and> e \<noteq> ENOENT)) \<and>
   (\<forall>e. u_sysattr udev ''boot_acl'' = Inl e \<and> e \<noteq> ENOENT \<and> 0 < e \<longrightarrow>
      bolt_sysfs_read_boot_acl udev = Inl (G_IO_ERROR e))"
  by (auto simp: bolt_sysfs_read_boot_acl_def bolt_strv_isempty_def bolt_error_for_errno_def
      g_strsplit_def strsplit_loop_Nil Let_def split: sum.splits prod.splits if_splits)

theorem read_boot_acl_cases_witness:
  "u_sysattr (example_acl_node (Inl ENOENT)) ''boot_acl'' = Inl ENOENT \<and>
   bolt_sysfs_read_boot_acl (example_acl_node (Inl ENOENT)) = Inr None \<and>
   u_sysattr (example_acl_node (Inl 13)) ''boot_acl'' = Inl 13 \<and> 13 \<noteq> ENOENT \<and> (0::int) < 13 \<and>
   bolt_sysfs_read_boot_acl (example_acl_node (Inl 13)) = Inl (G_IO_ERROR 13) \<and>
   u_sysattr (example_acl_node (Inr [])) ''boot_acl'' = Inr [] \<and>
   bolt_sysfs_read_boot_acl (example_acl_node (Inr [])) = Inr None \<and>
   u_sysattr (example_acl_node (Inr ''uuid-1,,'')) ''boot_acl'' = Inr ''uuid-1,,'' \<and>
   bolt_sysfs_read_boot_acl (example_acl_node (Inr ''uuid-1,,'')) =
     Inr (Some (g_strsplit ''uuid-1,,'' '','' 1024)) \<and>
   g_strsplit ''uuid-1,,'' '','' 1024 = [''uuid-1'', [], []]"
proof -
  have s: "g_strsplit ''uuid-1,,'' '','' 1024 = [''uuid-1'', [], []]" by code_simp
  have e: "(13::int) \<noteq> ENOENT" "(0::int) < 13" by code_simp+
  have a: "u_sysattr (example_acl_node (Inl ENOENT)) ''boot_acl'' = Inl ENOENT"
    "u_sysattr (example_acl_node (Inl 13)) ''boot_acl'' = Inl 13"
    "u_sysattr (example_acl_node (Inr [])) ''boot_acl'' = Inr []"
    "u_sysattr (example_acl_node (Inr ''uuid-1,,'')) ''boot_acl'' = Inr ''uuid-1,,''"
    by (simp_all add: example_acl_node_def)
  from read_boot_acl_cases [of "example_acl_node (Inl ENOENT)"] a(1)
  have 1: "bolt_sysfs_read_boot_acl (example_acl_node (Inl ENOENT)) = Inr None" by blast
  from read_boot_acl_cases [of "example_acl_node (Inl 13)"] a(2) e
  have 2: "bolt_sysfs_read_boot_acl (example_acl_node (Inl 13)) = Inl (G_IO_ERROR 13)" by blast
  from read_boot_acl_cases [of "example_acl_node (Inr [])"] a(3)
  have 3: "bolt_sysfs_read_boot_acl (example_acl_node (Inr [])) = Inr None" by simp
  from read_boot_acl_cases [of "example_acl_node (Inr ''uuid-1,,'')"] a(4)
  have 4: "bolt_sysfs_read_boot_acl (example_acl_node (Inr ''uuid-1,,'')) =
     Inr (Some (g_strsplit ''uuid-1,,'' '','' 1024))" by simp
  from a e s 1 2 3 4 show ?thesis by blast
qed

text \<open>
  The claim as it was stated fails for the value that consists of one comma: it splits
  into two empty strings, and the read returns that list, not an absent one.
\<close>

theorem read_boot_acl_cases_counterexample:
  "g_strsplit '','' '','' 1024 = [[], []] \<and>
   bolt_sysfs_read_boot_acl (example_acl_node (Inr '','')) = Inr (Some [[], []])"
  by code_simp

end
